theory Spec2Isabelle
  imports Complex_Main "HOL-Library.AList"
begin

section \<open>Python values, dictionaries and strings\<close>

text \<open>
  The agents exchange Python dictionaries whose values are numbers, strings, lists, tuples
  and further dictionaries. A dictionary is an association list in insertion order with
  string keys. Python's \<open>int\<close> and \<open>float\<close> are both modelled by exact rationals:
  a float is read as the rational it denotes, so rounding in the model is rounding of
  exact values.
\<close>

datatype pyval =
    PNone
  | PBool bool
  | PNum rat
  | PStr string
  | PList "pyval list"
  | PTuple "pyval list"
  | PDict "(string \<times> pyval) list"

type_synonym pydict = "(string \<times> pyval) list"

datatype error = AttributeError | TypeError | KeyError | ValueError | IndexError | BackendError

text \<open>\<open>d.get(k, default)\<close> and \<open>d[k] = v\<close> on a dictionary.\<close>

definition dict_get :: "pydict \<Rightarrow> string \<Rightarrow> pyval \<Rightarrow> pyval" where
  "dict_get d k dflt = (case map_of d k of Some v \<Rightarrow> v | None \<Rightarrow> dflt)"

definition dict_set :: "pydict \<Rightarrow> string \<Rightarrow> pyval \<Rightarrow> pydict" where
  "dict_set d k v = AList.update k v d"

definition has_key :: "pydict \<Rightarrow> string \<Rightarrow> bool" where
  "has_key d k = (map_of d k \<noteq> None)"

text \<open>Truth value of a Python object in a condition.\<close>

fun truthy :: "pyval \<Rightarrow> bool" where
  "truthy PNone = False"
| "truthy (PBool b) = b"
| "truthy (PNum x) = (x \<noteq> 0)"
| "truthy (PStr s) = (s \<noteq> [])"
| "truthy (PList xs) = (xs \<noteq> [])"
| "truthy (PTuple xs) = (xs \<noteq> [])"
| "truthy (PDict d) = (d \<noteq> [])"

text \<open>
  A string is the list of its characters. The texts of the program are ASCII but for the
  degree sign; \<open>str.upper()\<close> and \<open>str.lower()\<close> are modelled on the ASCII letters
  and keep every other character.
\<close>

definition upper_char :: "char \<Rightarrow> char" where
  "upper_char c =
     (case map_of (zip ''abcdefghijklmnopqrstuvwxyz'' ''ABCDEFGHIJKLMNOPQRSTUVWXYZ'') c of
        Some u \<Rightarrow> u | None \<Rightarrow> c)"

definition lower_char :: "char \<Rightarrow> char" where
  "lower_char c =
     (case map_of (zip ''ABCDEFGHIJKLMNOPQRSTUVWXYZ'' ''abcdefghijklmnopqrstuvwxyz'') c of
        Some l \<Rightarrow> l | None \<Rightarrow> c)"

definition upper :: "string \<Rightarrow> string" where
  "upper s = map upper_char s"

definition lower :: "string \<Rightarrow> string" where
  "lower s = map lower_char s"

text \<open>\<open>s.startswith(p)\<close> and the substring test \<open>sub in s\<close>.\<close>

definition startswith :: "string \<Rightarrow> string \<Rightarrow> bool" where
  "startswith s p = (take (length p) s = p)"

fun contains :: "string \<Rightarrow> string \<Rightarrow> bool" where
  "contains sub [] = (sub = [])"
| "contains sub (c # cs) = (startswith (c # cs) sub \<or> contains sub cs)"

text \<open>
  \<open>round(x, n)\<close> rounds to \<open>n\<close> decimal places, a tie going to the even neighbour;
  \<open>int(x)\<close> truncates towards zero.
\<close>

definition round_half_even :: "rat \<Rightarrow> int" where
  "round_half_even x =
     (let f = \<lfloor>x\<rfloor>; d = x - of_int f in
      if d < 1 / 2 then f else if 1 / 2 < d then f + 1 else if even f then f else f + 1)"

definition py_round :: "rat \<Rightarrow> nat \<Rightarrow> rat" where
  "py_round x n = of_int (round_half_even (x * 10 ^ n)) / 10 ^ n"

definition py_int :: "rat \<Rightarrow> int" where
  "py_int x = (if 0 \<le> x then \<lfloor>x\<rfloor> else \<lceil>x\<rceil>)"


section \<open>Performance predictor\<close>

text \<open>
  \<open>PerformancePredictionAgent._detect_chemistry\<close>: the keys of the formulation are
  upper-cased, then each indicator list is tried in turn with
  \<open>any(ind in comp for ind in indicators for comp in components_upper)\<close>.
\<close>

definition any_indicator :: "string list \<Rightarrow> string list \<Rightarrow> bool" where
  "any_indicator indicators components_upper =
     list_ex (\<lambda>ind. list_ex (\<lambda>comp. contains ind comp) components_upper) indicators"

definition li_indicators :: "string list" where
  "li_indicators = [''LIPF6'', ''LIFSI'', ''LITFSI'', ''LIBF4'', ''LIBOB'', ''LI'', ''LITHIUM'']"

definition zn_indicators :: "string list" where
  "zn_indicators = [''ZN'', ''ZNSO4'', ''ZNCL2'', ''ZNTFSI'', ''ZN(CF3SO3)2'', ''ZINC'']"

definition na_indicators :: "string list" where
  "na_indicators = [''NA'', ''NAPF6'', ''NATFSI'', ''NAFSI'', ''SODIUM'']"

definition mg_indicators :: "string list" where
  "mg_indicators = [''MG'', ''MGCL2'', ''MGTFSI'', ''MAGNESIUM'']"

definition aqueous_indicators :: "string list" where
  "aqueous_indicators = [''H2O'', ''WATER'', ''AQUEOUS'']"

definition detect_chemistry :: "pydict \<Rightarrow> string" where
  "detect_chemistry formulation =
     (let components_upper = map (\<lambda>k. upper k) (map fst formulation) in
      if any_indicator li_indicators components_upper then ''lithium-ion''
      else if any_indicator zn_indicators components_upper then ''zinc''
      else if any_indicator na_indicators components_upper then ''sodium-ion''
      else if any_indicator mg_indicators components_upper then ''magnesium''
      else if any_indicator aqueous_indicators components_upper then ''aqueous''
      else ''unknown'')"



text \<open>
  \<open>_get_base_values_for_chemistry\<close>: one row of the baseline table per chemistry, the
  row of \<open>unknown\<close> for any other key.
\<close>

record base_values =
  capacity :: rat
  cycles :: rat
  rate :: rat
  conductivity :: rat
  temp_range :: "rat \<times> rat"

definition baselines :: "(string \<times> base_values) list" where
  "baselines =
     [(''lithium-ion'',
         \<lparr>capacity = 85, cycles = 500, rate = 70, conductivity = 10, temp_range = (-20, 60)\<rparr>),
      (''zinc'',
         \<lparr>capacity = 80, cycles = 300, rate = 65, conductivity = 50, temp_range = (0, 50)\<rparr>),
      (''sodium-ion'',
         \<lparr>capacity = 80, cycles = 400, rate = 65, conductivity = 8, temp_range = (-20, 55)\<rparr>),
      (''magnesium'',
         \<lparr>capacity = 75, cycles = 200, rate = 50, conductivity = 5, temp_range = (0, 50)\<rparr>),
      (''aqueous'',
         \<lparr>capacity = 80, cycles = 500, rate = 80, conductivity = 100, temp_range = (0, 40)\<rparr>),
      (''unknown'',
         \<lparr>capacity = 75, cycles = 300, rate = 60, conductivity = 5, temp_range = (-10, 50)\<rparr>)]"

definition get_base_values_for_chemistry :: "string \<Rightarrow> base_values" where
  "get_base_values_for_chemistry chemistry =
     (case map_of baselines chemistry of
        Some b \<Rightarrow> b
      | None \<Rightarrow>
          \<lparr>capacity = 75, cycles = 300, rate = 60, conductivity = 5, temp_range = (-10, 50)\<rparr>)"

text \<open>
  \<open>_basic_estimation\<close>. The draw \<open>random.uniform(-5, 5)\<close> is the argument
  \<open>variation\<close>. Reading the keys of a formulation that is not a dictionary raises.
\<close>

definition basic_estimation :: "pyval \<Rightarrow> pyval \<Rightarrow> rat \<Rightarrow> error + pyval" where
  "basic_estimation formulation operating_conditions variation =
     (case formulation of
        PDict f \<Rightarrow>
          (let chemistry = detect_chemistry f;
               base = get_base_values_for_chemistry chemistry
           in Inr (PDict
             [(''status'', PStr ''success''),
              (''predictions'', PDict
                 [(''capacity_retention_percent'', PNum (py_round (capacity base + variation) 1)),
                  (''cycle_stability_cycles'',
                     PNum (of_int (py_int (cycles base + variation * 10)))),
                  (''rate_capability_2C_percent'', PNum (py_round (rate base + variation) 1)),
                  (''ionic_conductivity_mS_cm'',
                     PNum (py_round (conductivity base + variation * (1 / 10)) 2)),
                  (''temperature_range_C'',
                     PTuple [PNum (fst (temp_range base)), PNum (snd (temp_range base))])]),
              (''confidence_score'', PNum (1 / 2)),
              (''model_notes'', PStr (''Basic estimation for '' @ chemistry
                 @ '' chemistry. LLM service not available for detailed analysis.'')),
              (''battery_chemistry'', PStr chemistry),
              (''formulation_analyzed'', formulation),
              (''prediction_method'', PStr ''basic_estimation'')]))
      | _ \<Rightarrow> Inl AttributeError)"

text \<open>
  The language-model backend, an external collaborator. \<open>generate\<close> answers a prompt
  or raises; the system prompt, the temperature and the token limit are fixed at each call
  and are left out. The other four are the further methods of \<open>LLMService\<close> that the
  coordinator calls; the rationale is asked once per plan, so it carries the number of the
  call. The prompt texts and the extraction of a JSON object from an answer
  (\<open>json.loads\<close> and regular expressions) belong to the libraries; they are the arguments
  \<open>build_prompt\<close> and \<open>parse\<close> below.
\<close>

record llm_service =
  generate :: "string \<Rightarrow> error + string"
  analyze_electrolyte_query :: "string \<Rightarrow> error + pydict"
  generate_formulation_rationale :: "nat \<Rightarrow> pyval \<Rightarrow> pydict \<Rightarrow> error + string"
  summarize_literature :: "pyval \<Rightarrow> string \<Rightarrow> error + string"
  predict_compatibility :: "pyval \<Rightarrow> pyval \<Rightarrow> error + pydict"

definition predict_with_llm ::
  "llm_service \<Rightarrow> (pyval \<Rightarrow> string) \<Rightarrow> (string \<Rightarrow> pyval option) \<Rightarrow>
   pyval \<Rightarrow> pyval \<Rightarrow> pyval \<Rightarrow> rat \<Rightarrow> error + pyval" where
  "predict_with_llm svc build_prompt parse formulation operating_conditions battery_type variation =
     (case generate svc (build_prompt formulation) of
        Inl e \<Rightarrow> basic_estimation formulation operating_conditions variation
      | Inr response \<Rightarrow>
          (case parse response of
             None \<Rightarrow> basic_estimation formulation operating_conditions variation
           | Some predictions \<Rightarrow>
               if truthy predictions then
                 (case predictions of
                    PDict p \<Rightarrow> Inr (PDict
                      [(''status'', PStr ''success''),
                       (''predictions'', dict_get p ''predictions'' (PDict [])),
                       (''confidence_score'', dict_get p ''confidence_score'' (PNum (7 / 10))),
                       (''model_notes'', dict_get p ''model_notes'' (PStr [])),
                       (''battery_chemistry'', dict_get p ''battery_chemistry_detected''
                          (if truthy battery_type then battery_type else PStr ''unknown'')),
                       (''key_factors'', dict_get p ''key_performance_factors'' (PList [])),
                       (''formulation_analyzed'', formulation),
                       (''prediction_method'', PStr ''llm_based'')])
                  | _ \<Rightarrow> basic_estimation formulation operating_conditions variation)
               else basic_estimation formulation operating_conditions variation))"

text \<open>
  \<open>PerformancePredictionAgent.process\<close>: with a backend the model is asked, without one
  the basic estimation answers.
\<close>

definition prediction_process ::
  "llm_service option \<Rightarrow> (pyval \<Rightarrow> string) \<Rightarrow> (string \<Rightarrow> pyval option) \<Rightarrow>
   pydict \<Rightarrow> rat \<Rightarrow> error + pyval" where
  "prediction_process llm build_prompt parse input_data variation =
     (let formulation = dict_get input_data ''formulation'' (PDict []);
          operating_conditions = dict_get input_data ''operating_conditions'' (PDict []);
          battery_type = dict_get input_data ''battery_type'' (PStr [])
      in case llm of
           Some svc \<Rightarrow> predict_with_llm svc build_prompt parse formulation operating_conditions
                         battery_type variation
         | None \<Rightarrow> basic_estimation formulation operating_conditions variation)"


section \<open>Errors as values\<close>

text \<open>
  A Python function that may raise returns \<open>error + 'a\<close>; \<open>ebind\<close> runs the rest of
  the function on the value and passes an exception on, \<open>emap\<close> is a list comprehension
  whose body may raise.
\<close>

definition ebind :: "error + 'a \<Rightarrow> ('a \<Rightarrow> error + 'b) \<Rightarrow> error + 'b" where
  "ebind m f = (case m of Inl e \<Rightarrow> Inl e | Inr x \<Rightarrow> f x)"

fun emap :: "('a \<Rightarrow> error + 'b) \<Rightarrow> 'a list \<Rightarrow> error + 'b list" where
  "emap f [] = Inr []"
| "emap f (x # xs) = ebind (f x) (\<lambda>y. ebind (emap f xs) (\<lambda>ys. Inr (y # ys)))"

text \<open>\<open>d[k]\<close> raises on a missing key.\<close>

definition dict_index :: "pydict \<Rightarrow> string \<Rightarrow> error + pyval" where
  "dict_index d k = (case map_of d k of Some v \<Rightarrow> Inr v | None \<Rightarrow> Inl KeyError)"

text \<open>
  Reading an object as a dictionary (\<open>x.get\<close>), as a string (\<open>x.upper()\<close>,
  \<open>x.lower()\<close>) or as a number in a comparison raises when it is none. Iterating over a
  list or tuple gives its elements, over a string its characters, over a dictionary its
  keys; nothing else can be iterated.
\<close>

fun as_dict :: "pyval \<Rightarrow> error + pydict" where
  "as_dict (PDict d) = Inr d"
| "as_dict _ = Inl AttributeError"

fun as_str :: "pyval \<Rightarrow> error + string" where
  "as_str (PStr s) = Inr s"
| "as_str _ = Inl AttributeError"

fun as_num :: "pyval \<Rightarrow> error + rat" where
  "as_num (PNum x) = Inr x"
| "as_num (PBool b) = Inr (if b then 1 else 0)"
| "as_num _ = Inl TypeError"

fun py_iter :: "pyval \<Rightarrow> error + pyval list" where
  "py_iter (PList xs) = Inr xs"
| "py_iter (PTuple xs) = Inr xs"
| "py_iter (PStr s) = Inr (map (\<lambda>c. PStr [c]) s)"
| "py_iter (PDict d) = Inr (map (\<lambda>kv. PStr (fst kv)) d)"
| "py_iter _ = Inl TypeError"

definition py_gt :: "pyval \<Rightarrow> rat \<Rightarrow> error + bool" where
  "py_gt v c = ebind (as_num v) (\<lambda>x. Inr (c < x))"

text \<open>
  A value under a numeric format (\<open>:.2f\<close>, \<open>:.0%\<close>) must be a number; \<open>len\<close>, the
  test \<open>k in x\<close>, \<open>x[k]\<close> for a string \<open>k\<close>, the slice \<open>x[:3]\<close> and
  \<open>sep.join(x)\<close> on an arbitrary object.
\<close>

fun py_format :: "(rat \<Rightarrow> string) \<Rightarrow> pyval \<Rightarrow> error + string" where
  "py_format f (PNum x) = Inr (f x)"
| "py_format f (PBool b) = Inr (f (if b then 1 else 0))"
| "py_format f (PStr s) = Inl ValueError"
| "py_format f _ = Inl TypeError"

fun py_len :: "pyval \<Rightarrow> error + nat" where
  "py_len (PList xs) = Inr (length xs)"
| "py_len (PTuple xs) = Inr (length xs)"
| "py_len (PStr s) = Inr (length s)"
| "py_len (PDict d) = Inr (length d)"
| "py_len _ = Inl TypeError"

fun py_in :: "string \<Rightarrow> pyval \<Rightarrow> error + bool" where
  "py_in k (PDict d) = Inr (has_key d k)"
| "py_in k (PList xs) = Inr (PStr k \<in> set xs)"
| "py_in k (PTuple xs) = Inr (PStr k \<in> set xs)"
| "py_in k (PStr s) = Inr (contains k s)"
| "py_in k _ = Inl TypeError"

fun py_index :: "pyval \<Rightarrow> string \<Rightarrow> error + pyval" where
  "py_index (PDict d) k = dict_index d k"
| "py_index _ k = Inl TypeError"

fun py_slice3 :: "pyval \<Rightarrow> error + pyval list" where
  "py_slice3 (PList xs) = Inr (take 3 xs)"
| "py_slice3 (PTuple xs) = Inr (take 3 xs)"
| "py_slice3 (PStr s) = Inr (map (\<lambda>c. PStr [c]) (take 3 s))"
| "py_slice3 _ = Inl TypeError"

fun join_with :: "string \<Rightarrow> string list \<Rightarrow> string" where
  "join_with sep [] = []"
| "join_with sep [l] = l"
| "join_with sep (l # ls) = l @ sep @ join_with sep ls"

fun str_item :: "pyval \<Rightarrow> error + string" where
  "str_item (PStr s) = Inr s"
| "str_item _ = Inl TypeError"

definition py_join :: "string \<Rightarrow> pyval \<Rightarrow> error + string" where
  "py_join sep v =
     ebind (py_iter v) (\<lambda>xs. ebind (emap str_item xs) (\<lambda>ss. Inr (join_with sep ss)))"


section \<open>Property and compatibility responder\<close>

text \<open>\<open>PropertyCompatibilityAgent._initialize_property_database\<close>.\<close>

definition property_database :: "(string \<times> pydict) list" where
  "property_database =
     [(''EC'', [(''molecular_weight'', PNum (8806 / 100)), (''density'', PNum (132 / 100)),
        (''viscosity'', PNum (19 / 10)), (''dielectric_constant'', PNum (898 / 10)),
        (''melting_point'', PNum (364 / 10)), (''boiling_point'', PNum 248),
        (''flash_point'', PNum 160), (''oxidation_potential'', PNum (62 / 10)),
        (''reduction_potential'', PNum (8 / 10)), (''category'', PStr ''solvent'')]),
      (''DMC'', [(''molecular_weight'', PNum (9008 / 100)), (''density'', PNum (107 / 100)),
        (''viscosity'', PNum (59 / 100)), (''dielectric_constant'', PNum (31 / 10)),
        (''melting_point'', PNum (46 / 10)), (''boiling_point'', PNum 91),
        (''flash_point'', PNum 18), (''oxidation_potential'', PNum (67 / 10)),
        (''reduction_potential'', PNum 1), (''category'', PStr ''solvent'')]),
      (''EMC'', [(''molecular_weight'', PNum (1041 / 10)), (''density'', PNum (101 / 100)),
        (''viscosity'', PNum (65 / 100)), (''dielectric_constant'', PNum (29 / 10)),
        (''melting_point'', PNum (- 53)), (''boiling_point'', PNum 110),
        (''flash_point'', PNum 25), (''oxidation_potential'', PNum (67 / 10)),
        (''reduction_potential'', PNum 1), (''category'', PStr ''solvent'')]),
      (''DEC'', [(''molecular_weight'', PNum (11813 / 100)), (''density'', PNum (98 / 100)),
        (''viscosity'', PNum (75 / 100)), (''dielectric_constant'', PNum (28 / 10)),
        (''melting_point'', PNum (- (743 / 10))), (''boiling_point'', PNum 126),
        (''flash_point'', PNum 31), (''oxidation_potential'', PNum (67 / 10)),
        (''reduction_potential'', PNum 1), (''category'', PStr ''solvent'')]),
      (''PC'', [(''molecular_weight'', PNum (10209 / 100)), (''density'', PNum (120 / 100)),
        (''viscosity'', PNum (25 / 10)), (''dielectric_constant'', PNum (649 / 10)),
        (''melting_point'', PNum (- (488 / 10))), (''boiling_point'', PNum 242),
        (''flash_point'', PNum 132), (''oxidation_potential'', PNum (66 / 10)),
        (''reduction_potential'', PNum (9 / 10)), (''category'', PStr ''solvent'')]),
      (''LiPF6'', [(''molecular_weight'', PNum (15191 / 100)), (''decomposition_temp'', PNum 80),
        (''ionic_conductivity'', PNum (107 / 10)), (''thermal_stability'', PStr ''moderate''),
        (''moisture_sensitivity'', PStr ''high''), (''category'', PStr ''salt'')]),
      (''LiTFSI'', [(''molecular_weight'', PNum (28709 / 100)),
        (''decomposition_temp'', PNum 360), (''ionic_conductivity'', PNum 9),
        (''thermal_stability'', PStr ''excellent''), (''moisture_sensitivity'', PStr ''low''),
        (''al_corrosion'', PBool True), (''category'', PStr ''salt'')]),
      (''LiFSI'', [(''molecular_weight'', PNum (18707 / 100)), (''decomposition_temp'', PNum 200),
        (''ionic_conductivity'', PNum 12), (''thermal_stability'', PStr ''good''),
        (''moisture_sensitivity'', PStr ''moderate''), (''category'', PStr ''salt'')]),
      (''LiBF4'', [(''molecular_weight'', PNum (9375 / 100)), (''decomposition_temp'', PNum 293),
        (''ionic_conductivity'', PNum (34 / 10)), (''thermal_stability'', PStr ''good''),
        (''moisture_sensitivity'', PStr ''high''), (''category'', PStr ''salt'')]),
      (''VC'', [(''molecular_weight'', PNum (8605 / 100)),
        (''recommended_concentration'', PTuple [PNum 1, PNum 2]),
        (''function'', PStr ''SEI_former''), (''category'', PStr ''additive'')]),
      (''FEC'', [(''molecular_weight'', PNum (10605 / 100)),
        (''recommended_concentration'', PTuple [PNum 5, PNum 10]),
        (''function'', PStr ''SEI_former''), (''category'', PStr ''additive'')]),
      (''PS'', [(''molecular_weight'', PNum (12214 / 100)),
        (''recommended_concentration'', PTuple [PNum 1, PNum 3]),
        (''function'', PStr ''anode_passivation''), (''category'', PStr ''additive'')]),
      (''LiBOB'', [(''molecular_weight'', PNum (19379 / 100)),
        (''recommended_concentration'', PTuple [PNum (1 / 2), PNum 1]),
        (''function'', PStr ''cathode_stabilizer''), (''category'', PStr ''additive'')])]"

text \<open>
  \<open>_initialize_compatibility_rules\<close>: the six fixed rules, in the order of the table.
  The degree sign of the third condition is the character \<open>0xB0\<close>.
\<close>

record compat_rule =
  rule_id :: string
  rule_components :: "string list"
  rule_condition :: string
  with_material :: "string option"
  rule_issue :: string
  rule_severity :: string
  rule_solution :: string

definition compatibility_rules :: "compat_rule list" where
  "compatibility_rules =
     [\<lparr>rule_id = ''PC_graphite'', rule_components = [''PC''],
        rule_condition = ''PC concentration > 30%'', with_material = Some ''graphite_anode'',
        rule_issue = ''PC causes graphite exfoliation due to co-intercalation'',
        rule_severity = ''critical'',
        rule_solution = ''Use EC-based electrolyte or add FEC (10%)''\<rparr>,
      \<lparr>rule_id = ''LiTFSI_Al'', rule_components = [''LiTFSI''],
        rule_condition = ''voltage > 3.8V'', with_material = Some ''aluminum_current_collector'',
        rule_issue = ''LiTFSI corrodes aluminum at high voltages'',
        rule_severity = ''high'',
        rule_solution = ''Add LiPF6 (50:50 ratio) or use LiTFSI concentration < 0.5M''\<rparr>,
      \<lparr>rule_id = ''LiPF6_thermal'', rule_components = [''LiPF6''],
        rule_condition = ''temperature > 60'' @ [CHR 0xB0] @ ''C'', with_material = None,
        rule_issue = ''LiPF6 decomposes, releasing HF'',
        rule_severity = ''high'',
        rule_solution = ''Use LiBF4 or LiFSI for high-temperature applications''\<rparr>,
      \<lparr>rule_id = ''high_EC_viscosity'', rule_components = [''EC''],
        rule_condition = ''EC concentration > 50%'', with_material = None,
        rule_issue = ''High viscosity reduces rate capability'',
        rule_severity = ''medium'',
        rule_solution = ''Add linear carbonates (DMC, EMC, DEC) to reduce viscosity''\<rparr>,
      \<lparr>rule_id = ''FEC_gas_generation'', rule_components = [''FEC''],
        rule_condition = ''concentration > 15%'', with_material = None,
        rule_issue = ''Excessive CO2 generation during cycling'',
        rule_severity = ''medium'',
        rule_solution = ''Keep FEC between 5-10 wt%''\<rparr>,
      \<lparr>rule_id = ''high_voltage_cathode'', rule_components = [''EC'', ''DMC'', ''EMC'', ''DEC''],
        rule_condition = ''cathode voltage > 4.5V'', with_material = None,
        rule_issue = ''Carbonate solvents oxidize at high voltages'',
        rule_severity = ''high'',
        rule_solution =
          ''Add FEC, use fluorinated solvents, or consider high-concentration electrolyte''\<rparr>]"

text \<open>
  One turn of the loop of \<open>_check_compatibility\<close>: the four tests in the order of the
  source, each comparison made only when its guard holds. The guards compare the literals
  \<open>PC\<close>, \<open>LiTFSI\<close> and \<open>LiPF6\<close> with the upper-cased lists.
\<close>

definition guarded :: "bool \<Rightarrow> error + bool \<Rightarrow> error + bool" where
  "guarded g test = (if g then test else Inr False)"

definition rule_triggered ::
  "compat_rule \<Rightarrow> string list \<Rightarrow> pyval \<Rightarrow> pyval \<Rightarrow> pyval \<Rightarrow> error + bool" where
  "rule_triggered rule components_upper voltage temperature anode =
     (let rcs = map upper (rule_components rule) in
      ebind (guarded (''PC'' \<in> set rcs \<and> ''PC'' \<in> set components_upper)
               (ebind (as_str anode) (\<lambda>a. Inr (contains ''graphite'' (lower a))))) (\<lambda>t1.
      ebind (guarded (''LiTFSI'' \<in> set rcs \<and> ''LiTFSI'' \<in> set components_upper)
               (py_gt voltage (38 / 10))) (\<lambda>t2.
      ebind (guarded (''LiPF6'' \<in> set rcs \<and> ''LiPF6'' \<in> set components_upper)
               (py_gt temperature 60)) (\<lambda>t3.
      ebind (guarded (contains ''cathode voltage'' (rule_condition rule))
               (py_gt voltage (45 / 10))) (\<lambda>t4.
      Inr (t1 \<or> t2 \<or> t3 \<or> t4))))))"

definition issue_of :: "compat_rule \<Rightarrow> pyval" where
  "issue_of rule = PDict
     [(''rule_id'', PStr (rule_id rule)), (''issue'', PStr (rule_issue rule)),
      (''severity'', PStr (rule_severity rule)), (''solution'', PStr (rule_solution rule))]"

fun check_rules ::
  "compat_rule list \<Rightarrow> string list \<Rightarrow> pyval \<Rightarrow> pyval \<Rightarrow> pyval \<Rightarrow> error + pyval list" where
  "check_rules [] components_upper voltage temperature anode = Inr []"
| "check_rules (rule # rules) components_upper voltage temperature anode =
     (if list_ex (\<lambda>rc. rc \<in> set components_upper) (map upper (rule_components rule)) then
        ebind (rule_triggered rule components_upper voltage temperature anode) (\<lambda>triggered.
        ebind (check_rules rules components_upper voltage temperature anode) (\<lambda>issues.
        Inr (if triggered then issue_of rule # issues else issues)))
      else check_rules rules components_upper voltage temperature anode)"

definition check_compatibility :: "pyval \<Rightarrow> pyval \<Rightarrow> pyval \<Rightarrow> error + pyval list" where
  "check_compatibility components operating_conditions electrode_materials =
     ebind (py_iter components) (\<lambda>cs.
     ebind (emap (\<lambda>c. ebind (as_str c) (\<lambda>s. Inr (upper s))) cs) (\<lambda>components_upper.
     ebind (as_dict operating_conditions) (\<lambda>oc.
     ebind (as_dict electrode_materials) (\<lambda>em.
     check_rules compatibility_rules components_upper
       (dict_get oc ''max_voltage'' (PNum (42 / 10)))
       (dict_get oc ''max_temperature'' (PNum 45))
       (dict_get em ''anode'' (PStr ''graphite''))))))"

text \<open>\<open>_get_component_properties\<close>: the dictionary is keyed by the upper-cased name.\<close>

fun get_component_properties :: "string list \<Rightarrow> pydict \<Rightarrow> pydict" where
  "get_component_properties [] properties = properties"
| "get_component_properties (c # cs) properties =
     (let comp_upper = upper c in
      get_component_properties cs
        (dict_set properties comp_upper
           (case map_of property_database comp_upper of
              Some p \<Rightarrow> PDict p
            | None \<Rightarrow> PDict [(''status'', PStr ''unknown''), (''note'', PStr ''Not in database'')])))"

text \<open>
  \<open>_calculate_aggregate_properties\<close>: averages, minimum and maximum over the solvents
  among the component properties.
\<close>

definition category_is :: "string \<Rightarrow> pyval \<Rightarrow> bool" where
  "category_is cat v = (case v of PDict d \<Rightarrow> dict_get d ''category'' PNone = PStr cat | _ \<Rightarrow> False)"

fun py_min :: "rat list \<Rightarrow> error + rat" where
  "py_min [] = Inl ValueError"
| "py_min (x # xs) = Inr (fold min xs x)"

fun py_max :: "rat list \<Rightarrow> error + rat" where
  "py_max [] = Inl ValueError"
| "py_max (x # xs) = Inr (fold max xs x)"

definition solvent_value :: "string \<Rightarrow> rat \<Rightarrow> pyval \<Rightarrow> error + rat" where
  "solvent_value k dflt s = ebind (as_dict s) (\<lambda>d. as_num (dict_get d k (PNum dflt)))"

definition calculate_aggregate_properties :: "pydict \<Rightarrow> error + pyval" where
  "calculate_aggregate_properties properties =
     (let solvents = filter (\<lambda>kv. category_is ''solvent'' (snd kv)) properties in
      if solvents = [] then Inr (PDict [])
      else
        ebind (emap (solvent_value ''viscosity'' 1) (map snd solvents)) (\<lambda>vis.
        ebind (emap (solvent_value ''dielectric_constant'' 10) (map snd solvents)) (\<lambda>die.
        ebind (emap (solvent_value ''oxidation_potential'' 6) (map snd solvents)) (\<lambda>oxi.
        ebind (emap (solvent_value ''reduction_potential'' (1 / 2)) (map snd solvents)) (\<lambda>red.
        ebind (py_min oxi) (\<lambda>min_oxidation.
        ebind (py_max red) (\<lambda>max_reduction.
        let n = of_nat (length solvents);
            avg_viscosity = sum_list vis / n;
            avg_dielectric = sum_list die / n
        in Inr (PDict
          [(''estimated_viscosity_mPas'', PNum (py_round avg_viscosity 2)),
           (''estimated_dielectric_constant'', PNum (py_round avg_dielectric 1)),
           (''electrochemical_window'',
              PTuple [PNum (py_round max_reduction 2), PNum (py_round min_oxidation 2)]),
           (''window_width_V'', PNum (py_round (min_oxidation - max_reduction) 2))]))))))))"

text \<open>\<open>_generate_recommendations\<close>.\<close>

definition priority_of :: "pyval \<Rightarrow> error + pyval list" where
  "priority_of issue =
     ebind (as_dict issue) (\<lambda>i.
     ebind (dict_index i ''severity'') (\<lambda>sev.
     if sev = PStr ''critical'' \<or> sev = PStr ''high'' then
       ebind (dict_index i ''solution'') (\<lambda>sol.
       ebind (as_str sol) (\<lambda>s. Inr [PStr (''PRIORITY: '' @ s)]))
     else Inr []))"

definition has_additive :: "string list \<Rightarrow> bool" where
  "has_additive components_upper =
     list_ex (\<lambda>c. case map_of property_database c of
                     Some p \<Rightarrow> dict_get p ''category'' PNone = PStr ''additive''
                   | None \<Rightarrow> False) components_upper"

definition generate_recommendations ::
  "string list \<Rightarrow> pyval list \<Rightarrow> pydict \<Rightarrow> error + pyval list" where
  "generate_recommendations components issues operating_conditions =
     ebind (emap priority_of issues) (\<lambda>prio.
     ebind (py_gt (dict_get operating_conditions ''max_voltage'' (PNum (42 / 10))) (43 / 10))
       (\<lambda>high_voltage.
     ebind (py_gt (dict_get operating_conditions ''max_temperature'' (PNum 45)) 50)
       (\<lambda>high_temp.
     let recommendations =
           concat prio
           @ (if high_voltage
              then [PStr ''Consider adding VC or FEC for high-voltage stability''] else [])
           @ (if high_temp
              then [PStr ''Consider LiFSI or LiBF4 instead of LiPF6 for thermal stability'']
              else [])
           @ (if \<not> has_additive (map upper components)
              then [PStr ''Consider adding VC (1-2 wt%) for improved cycle life''] else [])
     in Inr (if recommendations \<noteq> [] then recommendations
             else [PStr ''Formulation appears compatible for intended use'']))))"

text \<open>
  \<open>PropertyCompatibilityAgent.process\<close>. The last entry counts the issues whose severity
  is \<open>critical\<close>.
\<close>

definition is_critical :: "pyval \<Rightarrow> error + bool" where
  "is_critical issue =
     ebind (as_dict issue) (\<lambda>i.
     ebind (dict_index i ''severity'') (\<lambda>sev. Inr (sev = PStr ''critical'')))"

definition property_process :: "pydict \<Rightarrow> error + pydict" where
  "property_process input_data =
     (let components = dict_get input_data ''components'' (PList []);
          operating_conditions = dict_get input_data ''operating_conditions'' (PDict []);
          electrode_materials = dict_get input_data ''electrode_materials'' (PDict [])
      in
      ebind (py_iter components) (\<lambda>cs.
      ebind (emap as_str cs) (\<lambda>names.
      let properties = get_component_properties names [] in
      ebind (check_compatibility components operating_conditions electrode_materials)
        (\<lambda>compatibility_issues.
      ebind (calculate_aggregate_properties properties) (\<lambda>aggregate.
      ebind (as_dict operating_conditions) (\<lambda>oc.
      ebind (generate_recommendations names compatibility_issues oc) (\<lambda>recommendations.
      ebind (emap is_critical compatibility_issues) (\<lambda>crit.
      Inr [(''status'', PStr ''success''),
           (''component_properties'', PDict properties),
           (''aggregate_properties'', aggregate),
           (''compatibility_issues'', PList compatibility_issues),
           (''recommendations'', PList recommendations),
           (''is_compatible'', PBool (length (filter (\<lambda>b. b) crit) = 0))]))))))))"


text \<open>The severity entry of an issue of the result, for the statements below.\<close>

definition severity_of :: "pyval \<Rightarrow> pyval" where
  "severity_of issue = (case issue of PDict i \<Rightarrow> dict_get i ''severity'' PNone | _ \<Rightarrow> PNone)"


section \<open>Planner\<close>

text \<open>
  \<open>str(x)\<close> inside a formatted string: a string stands for itself; how any other value is
  printed is the argument \<open>fmt\<close>. A number under \<open>:.2f\<close> is rounded to two decimals.
\<close>

definition py_str :: "(pyval \<Rightarrow> string) \<Rightarrow> pyval \<Rightarrow> string" where
  "py_str fmt v = (case v of PStr s \<Rightarrow> s | _ \<Rightarrow> fmt v)"

definition digit_char :: "nat \<Rightarrow> char" where
  "digit_char d = ''0123456789'' ! (d mod 10)"

fun show_nat :: "nat \<Rightarrow> string" where
  "show_nat n = (if n < 10 then [digit_char n] else show_nat (n div 10) @ [digit_char (n mod 10)])"

definition format_2f :: "rat \<Rightarrow> string" where
  "format_2f x =
     (let n = nat \<bar>round_half_even (x * 100)\<bar> in
      (if x < 0 then ''-'' else [])
      @ show_nat (n div 100) @ ''.'' @ [digit_char (n mod 100 div 10), digit_char (n mod 10)])"

text \<open>\<open>ExperimentPlanningAgent._initialize_protocols\<close>.\<close>

definition base_protocols :: pydict where
  "base_protocols =
     [(''cell_assembly'', PDict
        [(''name'', PStr ''Cell Assembly''),
         (''steps'', PList
           [PStr ''Prepare electrodes according to battery type specifications'',
            PStr ''Dry components under vacuum at appropriate temperature'',
            PStr ''Transfer to controlled atmosphere environment'',
            PStr ''Stack electrodes with appropriate separator'',
            PStr ''Add electrolyte with precise volume'',
            PStr ''Seal cell according to cell format'',
            PStr ''Rest before testing'']),
         (''duration'', PStr ''1-2 days''),
         (''equipment'', PList [PStr ''Glovebox/dry room'', PStr ''Cell assembly tools'', PStr ''Vacuum oven''])]),
      (''cycling_test'', PDict
        [(''name'', PStr ''Galvanostatic Cycling''),
         (''steps'', PList
           [PStr ''Connect cell to battery cycler'',
            PStr ''Set voltage window appropriate for battery chemistry'',
            PStr ''Perform formation cycles at low rate'',
            PStr ''Run regular cycling at specified rate'',
            PStr ''Record capacity, efficiency, voltage profiles'']),
         (''duration'', PStr ''1-4 weeks depending on cycle number''),
         (''equipment'', PList [PStr ''Battery cycler'', PStr ''Temperature chamber''])]),
      (''rate_capability'', PDict
        [(''name'', PStr ''Rate Capability Test''),
         (''steps'', PList
           [PStr ''Complete formation cycles'',
            PStr ''Cycle at progressively higher rates'',
            PStr ''Return to low rate for recovery check'',
            PStr ''Plot capacity vs rate'']),
         (''duration'', PStr ''3-5 days''),
         (''equipment'', PList [PStr ''Battery cycler''])]),
      (''impedance_spectroscopy'', PDict
        [(''name'', PStr ''Electrochemical Impedance Spectroscopy (EIS)''),
         (''steps'', PList
           [PStr ''Equilibrate cell at desired state of charge'',
            PStr ''Apply small AC perturbation'',
            PStr ''Sweep frequency range'',
            PStr ''Analyze impedance response'']),
         (''duration'', PStr ''2-4 hours per measurement''),
         (''equipment'', PList [PStr ''Potentiostat/Galvanostat'', PStr ''Frequency response analyzer''])]),
      (''conductivity_measurement'', PDict
        [(''name'', PStr ''Ionic Conductivity Measurement''),
         (''steps'', PList
           [PStr ''Prepare electrolyte sample'',
            PStr ''Fill conductivity cell'',
            PStr ''Measure impedance'',
            PStr ''Calculate conductivity'',
            PStr ''Optional: temperature-dependent measurements'']),
         (''duration'', PStr ''1-2 hours''),
         (''equipment'', PList [PStr ''Conductivity cell'', PStr ''Impedance analyzer''])])]"

text \<open>\<open>_detect_battery_type\<close>: keyword search in the lower-cased query.\<close>

definition any_keyword :: "string list \<Rightarrow> string \<Rightarrow> bool" where
  "any_keyword kws query_lower = list_ex (\<lambda>kw. contains kw query_lower) kws"

definition detect_battery_type :: "string \<Rightarrow> string" where
  "detect_battery_type query =
     (let query_lower = lower query in
      if any_keyword [''zinc'', ''zn-ion'', ''zn ion'', ''zn metal'', ''zn anode'', ''aqueous zinc'']
           query_lower then ''zinc''
      else if any_keyword [''sodium'', ''na-ion'', ''na ion'', ''sodium-ion''] query_lower
        then ''sodium-ion''
      else if any_keyword [''magnesium'', ''mg-ion'', ''mg ion'', ''mg metal''] query_lower
        then ''magnesium''
      else if any_keyword [''solid-state'', ''solid state'', ''all-solid'', ''solid electrolyte'',
             ''polymer electrolyte''] query_lower
        then ''solid-state''
      else if any_keyword [''aqueous'', ''water-based'', ''water based''] query_lower
        then ''aqueous''
      else if any_keyword [''lithium'', ''li-ion'', ''li ion'', ''lithium-ion'', ''lipf6'', ''lifsi'']
             query_lower
        then ''lithium-ion''
      else ''lithium-ion'')"

text \<open>
  The static templates of \<open>_generate_fallback_plans\<close>: per chemistry a baseline, an
  optimized and an advanced template, each with title, formulation, rationale and
  priority score.
\<close>

definition component :: "string \<Rightarrow> string \<Rightarrow> pyval \<Rightarrow> string \<Rightarrow> string \<Rightarrow> pyval" where
  "component name abbreviation concentration unit role = PDict
     [(''name'', PStr name), (''abbreviation'', PStr abbreviation),
      (''concentration'', concentration), (''unit'', PStr unit), (''role'', PStr role)]"

record template =
  t_title :: string
  t_formulation :: "pyval list"
  t_rationale :: string
  t_priority_score :: rat

record chem_templates =
  baseline :: template
  optimized :: template
  advanced :: template

definition zinc_templates :: chem_templates where
  "zinc_templates =
     \<lparr>baseline = \<lparr>
         t_title = ''Baseline Aqueous Zinc Electrolyte'',
         t_formulation =
           [component ''Zinc Sulfate'' ''ZnSO4'' (PNum 2) ''M'' ''salt'',
            component ''Water'' ''H2O'' (PNum 100) ''vol%'' ''solvent'',
            component ''Manganese Sulfate'' ''MnSO4'' (PNum (1 / 10)) ''M'' ''additive''],
         t_rationale =
           ''Standard aqueous zinc electrolyte with MnSO4 to suppress Mn dissolution from cathode.'',
         t_priority_score = 85 / 100\<rparr>,
      optimized = \<lparr>
         t_title = ''Optimized Zinc Triflate Electrolyte'',
         t_formulation =
           [component ''Zinc Trifluoromethanesulfonate'' ''Zn(CF3SO3)2'' (PNum 3) ''M'' ''salt'',
            component ''Water'' ''H2O'' (PNum 100) ''vol%'' ''solvent'',
            component ''Lithium bis(trifluoromethanesulfonyl)imide'' ''LiTFSI'' (PNum (5 / 10)) ''M'' ''additive''],
         t_rationale =
           ''High-concentration zinc triflate with LiTFSI for improved Zn plating/stripping reversibility.'',
         t_priority_score = 9 / 10\<rparr>,
      advanced = \<lparr>
         t_title = ''Water-in-Salt Zinc Electrolyte'',
         t_formulation =
           [component ''Zinc Trifluoromethanesulfonate'' ''Zn(CF3SO3)2'' (PNum 4) ''M'' ''salt'',
            component ''Lithium bis(trifluoromethanesulfonyl)imide'' ''LiTFSI'' (PNum 21) ''M'' ''salt'',
            component ''Water'' ''H2O'' (PNum 100) ''vol%'' ''solvent''],
         t_rationale =
           ''Water-in-salt electrolyte with expanded electrochemical stability window and dendrite suppression.'',
         t_priority_score = 88 / 100\<rparr>\<rparr>"

definition sodium_ion_templates :: chem_templates where
  "sodium_ion_templates =
     \<lparr>baseline = \<lparr>
         t_title = ''Baseline Sodium-ion Electrolyte'',
         t_formulation =
           [component ''Ethylene Carbonate'' ''EC'' (PNum 50) ''vol%'' ''solvent'',
            component ''Propylene Carbonate'' ''PC'' (PNum 50) ''vol%'' ''solvent'',
            component ''Sodium Hexafluorophosphate'' ''NaPF6'' (PNum 1) ''M'' ''salt''],
         t_rationale =
           ''Standard carbonate-based electrolyte for sodium-ion batteries.'',
         t_priority_score = 85 / 100\<rparr>,
      optimized = \<lparr>
         t_title = ''Optimized Ether-based Na Electrolyte'',
         t_formulation =
           [component ''Diethylene Glycol Dimethyl Ether'' ''Diglyme'' (PNum 100) ''vol%'' ''solvent'',
            component ''Sodium bis(trifluoromethanesulfonyl)imide'' ''NaTFSI'' (PNum 1) ''M'' ''salt''],
         t_rationale =
           ''Ether-based electrolyte with improved Na metal compatibility and lower viscosity.'',
         t_priority_score = 9 / 10\<rparr>,
      advanced = \<lparr>
         t_title = ''Advanced Concentrated Na Electrolyte'',
         t_formulation =
           [component ''Dimethoxyethane'' ''DME'' (PNum 100) ''vol%'' ''solvent'',
            component ''Sodium bis(fluorosulfonyl)imide'' ''NaFSI'' (PNum 4) ''M'' ''salt''],
         t_rationale =
           ''High-concentration NaFSI in ether for stable Na metal anode performance.'',
         t_priority_score = 88 / 100\<rparr>\<rparr>"

definition lithium_ion_templates :: chem_templates where
  "lithium_ion_templates =
     \<lparr>baseline = \<lparr>
         t_title = ''Baseline Commercial-type Electrolyte'',
         t_formulation =
           [component ''Ethylene Carbonate'' ''EC'' (PNum 30) ''vol%'' ''solvent'',
            component ''Ethyl Methyl Carbonate'' ''EMC'' (PNum 70) ''vol%'' ''solvent'',
            component ''Lithium Hexafluorophosphate'' ''LiPF6'' (PNum 1) ''M'' ''salt'',
            component ''Vinylene Carbonate'' ''VC'' (PNum 2) ''wt%'' ''additive''],
         t_rationale =
           ''Industry-standard EC:EMC electrolyte with VC additive for SEI formation.'',
         t_priority_score = 85 / 100\<rparr>,
      optimized = \<lparr>
         t_title = ''Optimized Li-ion Electrolyte'',
         t_formulation =
           [component ''Ethylene Carbonate'' ''EC'' (PNum 30) ''vol%'' ''solvent'',
            component ''Dimethyl Carbonate'' ''DMC'' (PNum 40) ''vol%'' ''solvent'',
            component ''Ethyl Methyl Carbonate'' ''EMC'' (PNum 30) ''vol%'' ''solvent'',
            component ''Lithium bis(fluorosulfonyl)imide'' ''LiFSI'' (PNum (12 / 10)) ''M'' ''salt'',
            component ''Vinylene Carbonate'' ''VC'' (PNum (15 / 10)) ''wt%'' ''additive'',
            component ''Fluoroethylene Carbonate'' ''FEC'' (PNum 5) ''wt%'' ''additive''],
         t_rationale =
           ''Ternary solvent with LiFSI for improved conductivity and thermal stability.'',
         t_priority_score = 9 / 10\<rparr>,
      advanced = \<lparr>
         t_title = ''Advanced Dual-Salt Li Electrolyte'',
         t_formulation =
           [component ''Ethylene Carbonate'' ''EC'' (PNum 30) ''vol%'' ''solvent'',
            component ''Dimethyl Carbonate'' ''DMC'' (PNum 35) ''vol%'' ''solvent'',
            component ''Ethyl Methyl Carbonate'' ''EMC'' (PNum 35) ''vol%'' ''solvent'',
            component ''Lithium Hexafluorophosphate'' ''LiPF6'' (PNum (8 / 10)) ''M'' ''salt'',
            component ''Lithium bis(fluorosulfonyl)imide'' ''LiFSI'' (PNum (2 / 10)) ''M'' ''salt'',
            component ''Vinylene Carbonate'' ''VC'' (PNum 2) ''wt%'' ''additive'',
            component ''1,3,2-Dioxathiolane 2,2-dioxide'' ''DTD'' (PNum 1) ''wt%'' ''additive''],
         t_rationale =
           ''Dual-salt system with synergistic SEI formation from VC and DTD.'',
         t_priority_score = 88 / 100\<rparr>\<rparr>"

definition magnesium_templates :: chem_templates where
  "magnesium_templates =
     \<lparr>baseline = \<lparr>
         t_title = ''Baseline APC Magnesium Electrolyte'',
         t_formulation =
           [component ''Magnesium Chloride'' ''MgCl2'' (PNum (25 / 100)) ''M'' ''salt'',
            component ''Aluminum Chloride'' ''AlCl3'' (PNum (5 / 10)) ''M'' ''Lewis acid'',
            component ''Tetrahydrofuran'' ''THF'' (PNum 100) ''vol%'' ''solvent''],
         t_rationale =
           ''All-phenyl complex (APC) type electrolyte, well-established for Mg batteries.'',
         t_priority_score = 85 / 100\<rparr>,
      optimized = \<lparr>
         t_title = ''Optimized Mg(TFSI)2 Electrolyte'',
         t_formulation =
           [component ''Magnesium bis(trifluoromethanesulfonyl)imide'' ''Mg(TFSI)2'' (PNum (5 / 10)) ''M'' ''salt'',
            component ''Dimethoxyethane'' ''DME'' (PNum 50) ''vol%'' ''solvent'',
            component ''Tetraglyme'' ''TEGDME'' (PNum 50) ''vol%'' ''solvent''],
         t_rationale =
           ''Non-corrosive Mg(TFSI)2 salt in glyme-based solvents for wider compatibility.'',
         t_priority_score = 88 / 100\<rparr>,
      advanced = \<lparr>
         t_title = ''Advanced Mg Electrolyte with Boron Cluster'',
         t_formulation =
           [component ''Magnesium Carborane'' ''Mg(CB11H12)2'' (PNum (5 / 10)) ''M'' ''salt'',
            component ''Tetraglyme'' ''TEGDME'' (PNum 100) ''vol%'' ''solvent''],
         t_rationale =
           ''Carborane-based anion provides high oxidative stability and non-nucleophilic character.'',
         t_priority_score = 82 / 100\<rparr>\<rparr>"

definition templates :: "(string \<times> chem_templates) list" where
  "templates =
     [(''zinc'', zinc_templates), (''sodium-ion'', sodium_ion_templates),
      (''lithium-ion'', lithium_ion_templates), (''magnesium'', magnesium_templates)]"

text \<open>
  \<open>_generate_fallback_plans\<close>: \<open>templates.get(battery_type, templates["lithium-ion"])\<close>,
  then one plan for each of \<open>advanced\<close>, \<open>optimized\<close>, \<open>baseline\<close> in this order. The
  identifiers \<open>str(uuid.uuid4())[:8]\<close> are the draws \<open>uuids 0\<close>, \<open>uuids 1\<close>, \<open>uuids 2\<close>.
\<close>

definition fallback_plan :: "string \<Rightarrow> string \<Rightarrow> template \<Rightarrow> pyval" where
  "fallback_plan plan_id battery_type t = PDict
     [(''plan_id'', PStr plan_id),
      (''title'', PStr (t_title t)),
      (''formulation'', PList (t_formulation t)),
      (''rationale'', PStr (t_rationale t)),
      (''battery_type'', PStr battery_type),
      (''experimental_steps'', PList
         [PStr (''Prepare electrolyte for '' @ battery_type @ '' battery''),
          PStr ''Verify purity and water content'',
          PStr ''Assemble test cells'',
          PStr ''Perform formation cycles'',
          PStr ''Run cycling tests'',
          PStr ''Conduct EIS measurements'',
          PStr ''Analyze results'']),
      (''safety_considerations'', PList
         [PStr ''Handle all chemicals with appropriate PPE'',
          PStr ''Work in appropriate atmosphere (glovebox for air-sensitive)'',
          PStr ''Follow MSDS guidelines for all components'']),
      (''estimated_cost'', PStr ''$300-600''),
      (''estimated_time'', PStr ''4-8 weeks''),
      (''priority_score'', PNum (t_priority_score t))]"

definition templates_get :: "string \<Rightarrow> chem_templates" where
  "templates_get battery_type =
     (case map_of templates battery_type of Some c \<Rightarrow> c | None \<Rightarrow> lithium_ion_templates)"

definition generate_fallback_plans :: "(nat \<Rightarrow> string) \<Rightarrow> string \<Rightarrow> pyval list" where
  "generate_fallback_plans uuids battery_type =
     (let chem_templates = templates_get battery_type
      in [fallback_plan (uuids 0) battery_type (advanced chem_templates),
          fallback_plan (uuids 1) battery_type (optimized chem_templates),
          fallback_plan (uuids 2) battery_type (baseline chem_templates)])"

text \<open>
  \<open>_generate_plans_with_llm\<close>: the answer of the backend is decoded by
  \<open>_parse_llm_plans\<close> (the argument \<open>parse_llm_plans\<close>); a failed call, an answer that
  cannot be decoded and an empty answer all fall back to the templates. The prompt text is
  the argument \<open>build_prompt\<close>.
\<close>

definition generate_plans_with_llm ::
  "llm_service \<Rightarrow> (pydict \<Rightarrow> string) \<Rightarrow> (string \<Rightarrow> pyval option) \<Rightarrow> (nat \<Rightarrow> string) \<Rightarrow>
   pydict \<Rightarrow> string \<Rightarrow> pyval" where
  "generate_plans_with_llm svc build_prompt parse_llm_plans uuids input_data battery_type =
     (case generate svc (build_prompt input_data) of
        Inl e \<Rightarrow> PList (generate_fallback_plans uuids battery_type)
      | Inr response \<Rightarrow>
          (case parse_llm_plans response of
             Some plans \<Rightarrow>
               if truthy plans then plans else PList (generate_fallback_plans uuids battery_type)
           | None \<Rightarrow> PList (generate_fallback_plans uuids battery_type)))"

text \<open>\<open>_select_protocols\<close>: the five protocols, whatever the plan.\<close>

definition select_protocols :: "error + pyval list" where
  "select_protocols =
     emap (dict_index base_protocols)
       [''cell_assembly'', ''cycling_test'', ''rate_capability'', ''impedance_spectroscopy'',
        ''conductivity_measurement'']"

text \<open>
  The loop \<open>for plan in plans: plan["protocols"] = ...\<close>. The plans are decoded JSON or
  the fallback list, so never a tuple; the assignment needs each plan to be a dictionary.
\<close>

definition add_protocols :: "pyval \<Rightarrow> error + pydict list" where
  "add_protocols plans =
     (case plans of
        PList ps \<Rightarrow>
          emap (\<lambda>plan. case plan of
                  PDict p \<Rightarrow> ebind select_protocols (\<lambda>protocols.
                               Inr (dict_set p ''protocols'' (PList protocols)))
                | _ \<Rightarrow> Inl TypeError) ps
      | _ \<Rightarrow> Inl TypeError)"

text \<open>\<open>_generate_recommendation\<close>: the text is built from \<open>plans[0]\<close>.\<close>

definition generate_recommendation ::
  "(pyval \<Rightarrow> string) \<Rightarrow> pydict list \<Rightarrow> string \<Rightarrow> error + string" where
  "generate_recommendation fmt plans battery_type =
     (case plans of
        [] \<Rightarrow> Inr (''Unable to generate recommendations for '' @ battery_type
                @ '' battery. Please provide more context.'')
      | top_plan # _ \<Rightarrow>
          ebind (dict_index top_plan ''title'') (\<lambda>title.
          ebind (py_format format_2f (dict_get top_plan ''priority_score'' (PNum (85 / 100))))
            (\<lambda>priority.
          Inr (''Recommended for '' @ upper battery_type @ '' battery: '' @ [CHR 0x27]
               @ py_str fmt title @ [CHR 0x27] @ '' (priority: '' @ priority @ ''). ''
               @ ''This formulation uses components specifically selected for '' @ battery_type
               @ '' chemistry. ''
               @ ''Estimated cost: ''
               @ py_str fmt (dict_get top_plan ''estimated_cost'' (PStr ''TBD''))
               @ '', timeline: ''
               @ py_str fmt (dict_get top_plan ''estimated_time'' (PStr ''TBD'')) @ ''.''))))"

text \<open>
  \<open>ExperimentPlanningAgent.process\<close>. A battery type that is not given is detected from
  the query; it is used as a string throughout.
\<close>

definition planner_process ::
  "llm_service option \<Rightarrow> (pydict \<Rightarrow> string) \<Rightarrow> (string \<Rightarrow> pyval option) \<Rightarrow>
   (pyval \<Rightarrow> string) \<Rightarrow> (nat \<Rightarrow> string) \<Rightarrow> pydict \<Rightarrow> error + pydict" where
  "planner_process llm build_prompt parse_llm_plans fmt uuids input_data =
     (let query = dict_get input_data ''query'' (PStr []);
          given_type = dict_get input_data ''battery_type'' (PStr [])
      in
      ebind (if \<not> truthy given_type
             then ebind (as_str query) (\<lambda>q. Inr (detect_battery_type q))
             else as_str given_type) (\<lambda>battery_type.
      let plans = (case llm of
                     Some svc \<Rightarrow> generate_plans_with_llm svc build_prompt parse_llm_plans uuids
                                   input_data battery_type
                   | None \<Rightarrow> PList (generate_fallback_plans uuids battery_type))
      in
      ebind (add_protocols plans) (\<lambda>plans.
      ebind (generate_recommendation fmt plans battery_type) (\<lambda>recommendation.
      Inr [(''status'', PStr ''success''),
           (''experiment_plans'', PList (map PDict plans)),
           (''total_plans'', PNum (of_nat (length plans))),
           (''battery_type'', PStr battery_type),
           (''recommendation'', PStr recommendation)]))))"


text \<open>
  Reading a plan of a result, for the statements below: an entry of the plan, its priority
  score, whether a formulation component has the five entries, and the check that a list
  of scores never increases.
\<close>

definition plan_entry :: "string \<Rightarrow> pyval \<Rightarrow> pyval" where
  "plan_entry k plan = (case plan of PDict p \<Rightarrow> dict_get p k PNone | _ \<Rightarrow> PNone)"


definition well_formed_component :: "pyval \<Rightarrow> bool" where
  "well_formed_component c =
     (case c of
        PDict d \<Rightarrow> has_key d ''name'' \<and> has_key d ''abbreviation'' \<and> has_key d ''concentration''
                   \<and> has_key d ''unit'' \<and> has_key d ''role''
      | _ \<Rightarrow> False)"

definition well_formed_plan :: "pyval \<Rightarrow> bool" where
  "well_formed_plan plan =
     (case plan_entry ''formulation'' plan of
        PList cs \<Rightarrow> list_all well_formed_component cs
                    \<and> (case plan_entry ''protocols'' plan of PList ps \<Rightarrow> ps \<noteq> [] | _ \<Rightarrow> False)
      | _ \<Rightarrow> False)"

fun non_increasing :: "rat list \<Rightarrow> bool" where
  "non_increasing (x # y # ys) = (y \<le> x \<and> non_increasing (y # ys))"
| "non_increasing _ = True"


text \<open>Fixed collaborators for the concrete runs: no prompt text, no decoding, one identifier.\<close>

definition no_prompt :: "pydict \<Rightarrow> string" where
  "no_prompt d = []"

definition no_parse :: "string \<Rightarrow> pyval option" where
  "no_parse s = None"

definition no_fmt :: "pyval \<Rightarrow> string" where
  "no_fmt v = ''?''"

definition fixed_ids :: "nat \<Rightarrow> string" where
  "fixed_ids n = ''0000000'' @ show_nat n"



section \<open>Literature responder\<close>

text \<open>
  \<open>LiteratureRAGAgent._initialize_knowledge_base\<close>: solvents, salts and additives with
  name, properties and use case, and the list of recent trends. The degree sign is the
  character \<open>0xB0\<close>.
\<close>

record kb_entry =
  kb_abbr :: string
  kb_name :: string
  kb_properties :: string
  kb_use_case :: string

definition common_solvents :: "kb_entry list" where
  "common_solvents =
     [\<lparr>kb_abbr = ''EC'', kb_name = ''Ethylene Carbonate'',
        kb_properties = (''High dielectric constant (~90), high melting point (36'' @ [CHR 0xB0] @ ''C)''),
        kb_use_case = ''Primary solvent for lithium-ion batteries, excellent SEI former''\<rparr>,
      \<lparr>kb_abbr = ''DMC'', kb_name = ''Dimethyl Carbonate'',
        kb_properties = ''Low viscosity, low dielectric constant'',
        kb_use_case = ''Co-solvent to reduce viscosity, improves ion mobility''\<rparr>,
      \<lparr>kb_abbr = ''EMC'', kb_name = ''Ethyl Methyl Carbonate'',
        kb_properties = ''Low viscosity, good low-temperature performance'',
        kb_use_case = ''Co-solvent for improved rate capability''\<rparr>,
      \<lparr>kb_abbr = ''DEC'', kb_name = ''Diethyl Carbonate'',
        kb_properties = ''Very low viscosity, wide liquid range'',
        kb_use_case = ''Co-solvent for high-rate applications''\<rparr>,
      \<lparr>kb_abbr = ''PC'', kb_name = ''Propylene Carbonate'',
        kb_properties = (''High dielectric constant, low melting point (-49'' @ [CHR 0xB0] @ ''C)''),
        kb_use_case = ''Single solvent for some applications, graphite incompatible''\<rparr>]"

definition common_salts :: "kb_entry list" where
  "common_salts =
     [\<lparr>kb_abbr = ''LiPF6'', kb_name = ''Lithium Hexafluorophosphate'',
        kb_properties = (''High ionic conductivity, thermally unstable above 60'' @ [CHR 0xB0] @ ''C''),
        kb_use_case = ''Most common commercial lithium salt''\<rparr>,
      \<lparr>kb_abbr = ''LiTFSI'', kb_name = ''Lithium bis(trifluoromethanesulfonyl)imide'',
        kb_properties = ''Thermally stable, corrosive to aluminum at high voltage'',
        kb_use_case = ''Solid-state and high-temperature applications''\<rparr>,
      \<lparr>kb_abbr = ''LiFSI'', kb_name = ''Lithium bis(fluorosulfonyl)imide'',
        kb_properties = ''High ionic conductivity, better thermal stability than LiPF6'',
        kb_use_case = ''High-performance liquid electrolytes''\<rparr>,
      \<lparr>kb_abbr = ''LiBF4'', kb_name = ''Lithium Tetrafluoroborate'',
        kb_properties = ''Lower conductivity, better thermal stability'',
        kb_use_case = ''High-temperature applications''\<rparr>]"

definition common_additives :: "kb_entry list" where
  "common_additives =
     [\<lparr>kb_abbr = ''VC'', kb_name = ''Vinylene Carbonate'',
        kb_properties = ''Polymerizes on anode surface'',
        kb_use_case = ''SEI stabilizer, improves cycle life (1-2 wt%)''\<rparr>,
      \<lparr>kb_abbr = ''FEC'', kb_name = ''Fluoroethylene Carbonate'',
        kb_properties = ''Forms fluorinated SEI components'',
        kb_use_case = ''Silicon anode stabilizer, high-voltage stabilizer (5-10 wt%)''\<rparr>,
      \<lparr>kb_abbr = ''PS'', kb_name = ''Propane Sultone'',
        kb_properties = ''Forms sulfur-containing SEI'',
        kb_use_case = ''Anode passivation, reduces gas generation (1-3 wt%)''\<rparr>,
      \<lparr>kb_abbr = ''LiBOB'', kb_name = ''Lithium bis(oxalato)borate'',
        kb_properties = ''Forms protective cathode film'',
        kb_use_case = ''High-voltage cathode stabilizer (0.5-1 wt%)''\<rparr>,
      \<lparr>kb_abbr = ''DTD'', kb_name = ''1,3,2-Dioxathiolane 2,2-dioxide'',
        kb_properties = ''Sulfur-containing additive'',
        kb_use_case = ''SEI former, capacity retention improvement (1-2 wt%)''\<rparr>]"

definition recent_trends :: "string list" where
  "recent_trends =
     [''High-concentration electrolytes (>3M) for extended voltage windows'',
      ''Localized high-concentration electrolytes with diluents'',
      ''Fluorinated solvents for high-voltage stability'',
      ''Ionic liquid electrolytes for safety'',
      ''Solid-state electrolytes: sulfides, oxides, polymers'',
      ''Dual-salt electrolytes for synergistic effects'',
      ''Weakly-coordinating anions for improved kinetics'']"

text \<open>
  One entry of the result list. The first four fields are the entries \<open>title\<close>,
  \<open>content\<close>, \<open>relevance_score\<close> and \<open>source\<close> that every result has; \<open>r_extra\<close>
  holds the further entries of a result from the document store.
\<close>

record lit_result =
  r_title :: pyval
  r_content :: string
  r_relevance :: rat
  r_source :: string
  r_extra :: pydict

definition result_dict :: "lit_result \<Rightarrow> pyval" where
  "result_dict x = PDict
     ([(''title'', r_title x), (''content'', PStr (r_content x)),
       (''relevance_score'', PNum (r_relevance x)), (''source'', PStr (r_source x))]
      @ r_extra x)"

text \<open>
  The external similarity search: a document store answers with documents and distances,
  or with documents only, or raises.
\<close>

record document =
  metadata :: pydict
  page_content :: string

record vector_store =
  similarity_search_with_score :: "string \<Rightarrow> nat \<Rightarrow> error + (document \<times> rat) list"
  similarity_search :: "string \<Rightarrow> nat \<Rightarrow> error + document list"

text \<open>
  \<open>_search_vector_store\<close>: a distance becomes the similarity
  \<open>max(0, min(1, 1 - score / 2))\<close> rounded to two places; when the scored search raises,
  the plain search is tried with the fixed score 0.85; when that raises too, nothing is
  found.
\<close>

definition scored_result :: "document \<times> rat \<Rightarrow> lit_result" where
  "scored_result ds =
     (let doc = fst ds; score = snd ds;
          similarity = max 0 (min 1 (1 - score / 2))
      in \<lparr>r_title = dict_get (metadata doc) ''source'' (PStr ''Uploaded Document''),
          r_content = page_content doc,
          r_relevance = py_round similarity 2,
          r_source = ''uploaded_document'',
          r_extra =
            [(''page'', dict_get (metadata doc) ''page'' PNone),
             (''chunk_id'', dict_get (metadata doc) ''chunk_id'' PNone),
             (''metadata'', PDict (filter (\<lambda>kv. fst kv \<noteq> ''source'') (metadata doc)))]\<rparr>)"

definition unscored_result :: "document \<Rightarrow> lit_result" where
  "unscored_result doc =
     \<lparr>r_title = dict_get (metadata doc) ''source'' (PStr ''Uploaded Document''),
      r_content = page_content doc,
      r_relevance = 85 / 100,
      r_source = ''uploaded_document'',
      r_extra =
        [(''page'', dict_get (metadata doc) ''page'' PNone),
         (''metadata'', PDict (metadata doc))]\<rparr>"

definition search_vector_store :: "vector_store option \<Rightarrow> string \<Rightarrow> nat \<Rightarrow> lit_result list" where
  "search_vector_store store query k =
     (case store of
        None \<Rightarrow> []
      | Some vs \<Rightarrow>
          (case similarity_search_with_score vs query k of
             Inr docs_with_scores \<Rightarrow> map scored_result docs_with_scores
           | Inl e \<Rightarrow>
               (case similarity_search vs query k of
                  Inr docs \<Rightarrow> map unscored_result docs
                | Inl e' \<Rightarrow> [])))"

text \<open>
  \<open>_search_knowledge_base\<close>: the three tables in turn, an entry being found when its
  abbreviation or its name occurs in the lower-cased query, then the trends for each
  keyword that occurs in the query.
\<close>

definition kb_match :: "string \<Rightarrow> kb_entry \<Rightarrow> bool" where
  "kb_match query_lower e =
     (contains (lower (kb_abbr e)) query_lower \<or> contains (lower (kb_name e)) query_lower)"

definition kb_result :: "string \<Rightarrow> kb_entry \<Rightarrow> lit_result" where
  "kb_result kind e =
     \<lparr>r_title = PStr (kind @ '': '' @ kb_name e @ '' ('' @ kb_abbr e @ '')''),
      r_content = ''Properties: '' @ kb_properties e @ ''. Use case: '' @ kb_use_case e,
      r_relevance = 9 / 10,
      r_source = ''knowledge_base'',
      r_extra = []\<rparr>"

definition kb_section :: "string \<Rightarrow> kb_entry list \<Rightarrow> string \<Rightarrow> lit_result list" where
  "kb_section kind table query_lower =
     map (kb_result kind) (filter (kb_match query_lower) table)"

definition trend_keywords :: "string list" where
  "trend_keywords =
     [''high-voltage'', ''safety'', ''solid-state'', ''silicon'', ''fast-charging'',
      ''concentration'']"

definition trend_result :: "string \<Rightarrow> lit_result" where
  "trend_result trend =
     \<lparr>r_title = PStr ''Recent Research Trend'',
      r_content = trend,
      r_relevance = 75 / 100,
      r_source = ''knowledge_base'',
      r_extra = []\<rparr>"

definition trend_results :: "string \<Rightarrow> lit_result list" where
  "trend_results query_lower =
     concat (map (\<lambda>keyword.
                    if contains keyword query_lower
                    then map trend_result
                           (filter (\<lambda>trend. contains keyword (lower trend)) recent_trends)
                    else [])
               trend_keywords)"

definition search_knowledge_base :: "string \<Rightarrow> lit_result list" where
  "search_knowledge_base query =
     (let query_lower = lower query in
      kb_section ''Solvent'' common_solvents query_lower
      @ kb_section ''Salt'' common_salts query_lower
      @ kb_section ''Additive'' common_additives query_lower
      @ trend_results query_lower)"

text \<open>\<open>_generate_summary\<close>: a headline and the first five results, joined by newlines.\<close>

fun join_lines :: "string list \<Rightarrow> string" where
  "join_lines [] = []"
| "join_lines [l] = l"
| "join_lines (l # ls) = l @ [CHR 0x0A] @ join_lines ls"

fun summary_lines :: "(pyval \<Rightarrow> string) \<Rightarrow> nat \<Rightarrow> lit_result list \<Rightarrow> string list" where
  "summary_lines fmt i [] = []"
| "summary_lines fmt i (x # xs) =
     (show_nat i @ ''. '' @ py_str fmt (r_title x) @ '': '' @ take 200 (r_content x) @ ''...'')
     # summary_lines fmt (Suc i) xs"

definition generate_summary :: "(pyval \<Rightarrow> string) \<Rightarrow> string \<Rightarrow> lit_result list \<Rightarrow> string" where
  "generate_summary fmt query results =
     (if results = [] then
        ''No specific literature found for query: '' @ [CHR 0x27] @ query @ [CHR 0x27]
        @ ''. Consider refining your search or uploading relevant documents.''
      else
        join_lines
          ((''Found '' @ show_nat (length results) @ '' relevant sources for '' @ [CHR 0x27]
            @ query @ [CHR 0x27] @ '':'' @ [CHR 0x0A])
           # summary_lines fmt 1 (take 5 results)))"

text \<open>
  \<open>LiteratureRAGAgent.process\<close>: the results of the document store, then the results of
  the knowledge base, in one list.
\<close>

definition literature_process ::
  "vector_store option \<Rightarrow> (pyval \<Rightarrow> string) \<Rightarrow> pydict \<Rightarrow> error + pydict" where
  "literature_process store fmt input_data =
     ebind (as_str (dict_get input_data ''query'' (PStr []))) (\<lambda>query.
     let rag_results = search_vector_store store query 5;
         kb_results = search_knowledge_base query;
         results = rag_results @ kb_results;
         summary = generate_summary fmt query results
     in Inr [(''status'', PStr ''success''),
             (''query'', PStr query),
             (''results'', PList (map result_dict results)),
             (''summary'', PStr summary),
             (''sources_count'', PNum (of_nat (length results)))])"

text \<open>
  The relevance score of an entry of a result list, for the statements below, and a
  document store that holds one document at distance 1.
\<close>

definition relevance_of :: "pyval \<Rightarrow> rat" where
  "relevance_of x =
     (case x of
        PDict d \<Rightarrow> (case dict_get d ''relevance_score'' PNone of PNum s \<Rightarrow> s | _ \<Rightarrow> 0)
      | _ \<Rightarrow> 0)"

definition results_of :: "error + pydict \<Rightarrow> pyval list" where
  "results_of res =
     (case res of
        Inr r \<Rightarrow> (case dict_get r ''results'' PNone of PList xs \<Rightarrow> xs | _ \<Rightarrow> [])
      | Inl e \<Rightarrow> [])"

definition one_document_store :: vector_store where
  "one_document_store =
     \<lparr>similarity_search_with_score =
        (\<lambda>query k. Inr [(\<lparr>metadata = [(''source'', PStr ''paper.pdf'')],
                            page_content = ''Electrolyte additives''\<rparr>, 1)]),
      similarity_search =
        (\<lambda>query k. Inr [\<lparr>metadata = [(''source'', PStr ''paper.pdf'')],
                           page_content = ''Electrolyte additives''\<rparr>])\<rparr>"


section \<open>Query classifier\<close>

text \<open>
  \<open>str.strip()\<close> removes white space at both ends; \<open>s.split(sep)\<close> cuts at every
  occurrence of a non-empty separator, from the left.
\<close>

definition is_space :: "char \<Rightarrow> bool" where
  "is_space c \<longleftrightarrow> c \<in> set [CHR 0x20, CHR 0x09, CHR 0x0A, CHR 0x0B, CHR 0x0C, CHR 0x0D,
      CHR 0x1C, CHR 0x1D, CHR 0x1E, CHR 0x1F, CHR 0x85, CHR 0xA0]"

definition strip :: "string \<Rightarrow> string" where
  "strip s = rev (dropWhile is_space (rev (dropWhile is_space s)))"

function split_on :: "string \<Rightarrow> string \<Rightarrow> string \<Rightarrow> string list" where
  "split_on sep acc [] = [acc]"
| "split_on sep acc (c # cs) =
     (if sep \<noteq> [] \<and> startswith (c # cs) sep
      then acc # split_on sep [] (drop (length sep) (c # cs))
      else split_on sep (acc @ [c]) cs)"
  by pat_completeness auto
termination
  by (relation "measure (\<lambda>(sep, acc, s). length s)") auto

definition py_split :: "string \<Rightarrow> string \<Rightarrow> string list" where
  "py_split s sep = split_on sep [] s"

text \<open>The keyword heuristics of \<open>OrchestratorAgent._classify_query\<close>.\<close>

definition greetings :: "string list" where
  "greetings = [''hello'', ''hi'', ''hey'', ''good morning'', ''good afternoon'', ''good evening'',
     ''howdy'', ''greetings'', ''what'' @ [CHR 0x27] @ ''s up'', ''sup'', ''yo'']"

definition help_patterns :: "string list" where
  "help_patterns = [''help'', ''what can you do'', ''how do i use'', ''what is this'',
     ''how does this work'', ''capabilities'', ''features'']"

definition is_greeting :: "string \<Rightarrow> bool" where
  "is_greeting query_lower \<longleftrightarrow>
     query_lower \<in> set greetings \<or> list_ex (\<lambda>g. startswith query_lower g) greetings"

definition is_help :: "string \<Rightarrow> bool" where
  "is_help query_lower \<longleftrightarrow> list_ex (\<lambda>p. contains p query_lower) help_patterns"

text \<open>
  \<open>_llm_classify_query\<close>: the answer is stripped, a code fence around it is removed, and
  the rest is decoded by \<open>json.loads\<close> (the argument \<open>json_loads\<close>, \<open>None\<close> when the text
  is no JSON). A text that cannot be decoded gives the design classification; whatever is
  decoded is returned as it is.
\<close>

definition classify_prompt :: "string \<Rightarrow> string" where
  "classify_prompt query = ''Classify this query: '' @ [CHR 0x22] @ query @ [CHR 0x22]"

definition fenced_text :: "string \<Rightarrow> error + string" where
  "fenced_text response =
     (let response = strip response in
      if startswith response ''```'' then
        (case py_split response ''```'' of
           before # inner # rest \<Rightarrow> Inr (if startswith inner ''json'' then drop 4 inner else inner)
         | _ \<Rightarrow> Inl IndexError)
      else Inr response)"

definition llm_classify_query ::
  "llm_service \<Rightarrow> (string \<Rightarrow> pyval option) \<Rightarrow> string \<Rightarrow> error + pyval" where
  "llm_classify_query svc json_loads query =
     ebind (generate svc (classify_prompt query)) (\<lambda>response.
     ebind (fenced_text response) (\<lambda>text.
     case json_loads text of
       Some result \<Rightarrow> Inr result
     | None \<Rightarrow> Inr (PDict
         [(''query_type'', PStr ''electrolyte_design''),
          (''confidence'', PNum (6 / 10)),
          (''should_delegate'', PBool True),
          (''reason'', PStr ''Classification parsing failed, defaulting to design workflow'')])))"

text \<open>
  \<open>_classify_query\<close>: greeting, then help, then the backend when there is one, an
  exception of which is caught; the default is the design classification.
\<close>

definition default_classification :: pyval where
  "default_classification = PDict
     [(''query_type'', PStr ''electrolyte_design''),
      (''confidence'', PNum (7 / 10)),
      (''should_delegate'', PBool True),
      (''reason'', PStr ''Defaulting to electrolyte design workflow'')]"

definition classify_query ::
  "llm_service option \<Rightarrow> (string \<Rightarrow> pyval option) \<Rightarrow> string \<Rightarrow> pyval" where
  "classify_query llm json_loads query =
     (let query_lower = strip (lower query) in
      if is_greeting query_lower then PDict
        [(''query_type'', PStr ''greeting''),
         (''confidence'', PNum (95 / 100)),
         (''should_delegate'', PBool False),
         (''reason'', PStr ''Simple greeting detected'')]
      else if is_help query_lower then PDict
        [(''query_type'', PStr ''help''),
         (''confidence'', PNum (9 / 10)),
         (''should_delegate'', PBool False),
         (''reason'', PStr ''Help request detected'')]
      else
        (case llm of
           Some svc \<Rightarrow>
             (case llm_classify_query svc json_loads query of
                Inr classification \<Rightarrow> classification
              | Inl e \<Rightarrow> default_classification)
         | None \<Rightarrow> default_classification))"

text \<open>An entry of a classification, for the statements below.\<close>

definition classification_entry :: "string \<Rightarrow> pyval \<Rightarrow> pyval" where
  "classification_entry k c = (case c of PDict d \<Rightarrow> dict_get d k PNone | _ \<Rightarrow> PNone)"


text \<open>A backend whose answers are no JSON and whose other methods fail.\<close>

definition silent_llm :: llm_service where
  "silent_llm = \<lparr>generate = (\<lambda>prompt. Inr ''I cannot classify this.''),
     analyze_electrolyte_query = (\<lambda>q. Inl BackendError),
     generate_formulation_rationale = (\<lambda>i f r. Inl BackendError),
     summarize_literature = (\<lambda>d q. Inl BackendError),
     predict_compatibility = (\<lambda>cs oc. Inl BackendError)\<rparr>"


section \<open>Coordinator\<close>

text \<open>
  The coordinator awaits its agents one after the other. A run threads the list of the
  agent calls made so far, each with its input, and ends in a value or an exception.
  \<open>invoke\<close> is \<open>await agent.process(input)\<close>: the call is recorded, then the agent
  answers or raises.
\<close>

datatype agent = Literature | Property | Planner | Predictor

type_synonym call = "agent \<times> pydict"

type_synonym 'a run = "call list \<Rightarrow> (error + 'a) \<times> call list"

definition ret :: "'a \<Rightarrow> 'a run" where
  "ret x = (\<lambda>calls. (Inr x, calls))"

definition lift :: "error + 'a \<Rightarrow> 'a run" where
  "lift v = (\<lambda>calls. (v, calls))"

definition sbind :: "'a run \<Rightarrow> ('a \<Rightarrow> 'b run) \<Rightarrow> 'b run" where
  "sbind m f = (\<lambda>calls. case m calls of
                          (Inl e, calls') \<Rightarrow> (Inl e, calls')
                        | (Inr x, calls') \<Rightarrow> f x calls')"

definition invoke :: "agent \<Rightarrow> (pydict \<Rightarrow> error + pydict) \<Rightarrow> pydict \<Rightarrow> pydict run" where
  "invoke a agent_process input_data = (\<lambda>calls. (agent_process input_data, calls @ [(a, input_data)]))"

text \<open>
  What the coordinator works with: its four agents (the predictor is called once per plan,
  so it carries the number of the call), the backend if there is one, the requirement
  extraction \<open>_parse_query\<close> applied to the material input and the query, the JSON
  decoder, the printing of values that are no strings, and the time a request took.
\<close>

record collaborators =
  literature_agent :: "pydict \<Rightarrow> error + pydict"
  property_agent :: "pydict \<Rightarrow> error + pydict"
  planning_agent :: "pydict \<Rightarrow> error + pydict"
  prediction_agent :: "nat \<Rightarrow> pydict \<Rightarrow> error + pydict"
  backend :: "llm_service option"
  parse_query :: "pyval \<Rightarrow> string \<Rightarrow> error + pydict"
  json_decoder :: "string \<Rightarrow> pyval option"
  printer :: "pyval \<Rightarrow> string"
  elapsed :: rat

text \<open>\<open>s.replace("_", " ")\<close> and \<open>s.title()\<close>.\<close>

definition replace_underscores :: "string \<Rightarrow> string" where
  "replace_underscores s = map (\<lambda>c. if c = CHR ''_'' then CHR '' '' else c) s"

definition is_letter :: "char \<Rightarrow> bool" where
  "is_letter c \<longleftrightarrow> upper_char c \<noteq> c \<or> lower_char c \<noteq> c"

fun title_from :: "bool \<Rightarrow> string \<Rightarrow> string" where
  "title_from previous_cased [] = []"
| "title_from previous_cased (c # cs) =
     (if is_letter c
      then (if previous_cased then lower_char c else upper_char c) # title_from True cs
      else c # title_from False cs)"

definition title_case :: "string \<Rightarrow> string" where
  "title_case s = title_from False s"

definition format_percent :: "rat \<Rightarrow> string" where
  "format_percent x =
     (if x < 0 then ''-'' else []) @ show_nat (nat \<bar>round_half_even (x * 100)\<bar>) @ ''%''"

text \<open>
  \<open>_handle_simple_query\<close>: greeting, help and off-topic queries are answered directly;
  for any other type there is no direct answer. The help text is abridged to its first
  line here. A failing call to the backend is not caught.
\<close>

definition direct_response :: "collaborators \<Rightarrow> string \<Rightarrow> string \<Rightarrow> string \<Rightarrow> string \<Rightarrow> pydict" where
  "direct_response C query message response_type summary =
     [(''query'', PStr query),
      (''agent_responses'', PList [PDict
         [(''agent_type'', PStr ''orchestrator''),
          (''status'', PStr ''success''),
          (''message'', PStr message),
          (''data'', PDict [(''response_type'', PStr response_type)])]]),
      (''experiment_plans'', PList []),
      (''summary'', PStr summary),
      (''processing_time'', PNum (py_round (elapsed C) 2)),
      (''requirements_parsed'', PDict [])]"

definition help_text :: string where
  "help_text = ''## Electrolyte Design System - Help''"

definition handle_simple_query :: "collaborators \<Rightarrow> string \<Rightarrow> pyval \<Rightarrow> error + pydict option" where
  "handle_simple_query C query query_type =
     (if query_type = PStr ''greeting'' then
        ebind (case backend C of
                 Some svc \<Rightarrow> generate svc (''User said: '' @ [CHR 0x27] @ query @ [CHR 0x27]
                   @ ''. Respond warmly and briefly introduce yourself as an AI assistant for electrolyte design. Mention you can help design battery electrolytes and generate experiment plans.'')
               | None \<Rightarrow> Inr (''Hello! I'' @ [CHR 0x27] @ ''m the Electrolyte Design Assistant. I can help you design battery electrolytes, analyze component compatibility, predict performance, and generate detailed experiment plans. What would you like to work on today?''))
          (\<lambda>response. Inr (Some
             (direct_response C query ''Direct response - greeting'' ''greeting'' response)))
      else if query_type = PStr ''help'' then
        Inr (Some (direct_response C query ''Direct response - help information'' ''help''
                     help_text))
      else if query_type = PStr ''off_topic'' then
        ebind (case backend C of
                 Some svc \<Rightarrow> generate svc (''User asked: '' @ [CHR 0x27] @ query @ [CHR 0x27]
                   @ ''. Politely explain that you specialize in battery electrolyte design and redirect them. Be helpful but brief.'')
               | None \<Rightarrow> Inr (''I'' @ [CHR 0x27] @ ''m specialized in lithium-ion battery electrolyte design. I can help you design electrolyte formulations, check component compatibility, predict performance, and generate experiment plans. Would you like to explore any of these capabilities?''))
          (\<lambda>response. Inr (Some
             (direct_response C query ''Direct response - redirected off-topic query''
                ''off_topic_redirect'' response)))
      else Inr None)"

text \<open>
  The summary of the literature by the backend, in \<open>_handle_literature_query\<close> and
  \<open>_handle_design_query\<close>: asked only when there are results, and skipped when it
  raises.
\<close>

definition summarize_step :: "collaborators \<Rightarrow> pydict \<Rightarrow> string \<Rightarrow> pydict" where
  "summarize_step C literature_result query =
     (case backend C of
        Some svc \<Rightarrow>
          if truthy (dict_get literature_result ''results'' PNone) then
            (case summarize_literature svc (dict_get literature_result ''results'' (PList []))
                    query of
               Inr summary \<Rightarrow> dict_set literature_result ''llm_summary'' (PStr summary)
             | Inl e \<Rightarrow> literature_result)
          else literature_result
      | None \<Rightarrow> literature_result)"

definition literature_response :: "collaborators \<Rightarrow> pydict \<Rightarrow> pyval" where
  "literature_response C literature_result = PDict
     [(''agent_type'', PStr ''literature_rag''),
      (''status'', dict_get literature_result ''status'' (PStr ''success'')),
      (''message'', PStr (''Found ''
         @ py_str (printer C) (dict_get literature_result ''sources_count'' (PNum 0))
         @ '' relevant sources'')),
      (''data'', PDict literature_result)]"

definition handle_literature_query :: "collaborators \<Rightarrow> string \<Rightarrow> pydict run" where
  "handle_literature_query C query =
     sbind (invoke Literature (literature_agent C) [(''query'', PStr query)]) (\<lambda>answer.
     let literature_result = summarize_step C answer query;
         response_summary = dict_get literature_result ''llm_summary''
                              (dict_get literature_result ''summary'' (PStr []))
     in ret [(''query'', PStr query),
             (''agent_responses'', PList [literature_response C literature_result]),
             (''experiment_plans'', PList []),
             (''summary'', PStr (''## Literature Search Results'' @ [CHR 0x0A, CHR 0x0A]
                @ py_str (printer C) response_summary)),
             (''processing_time'', PNum (py_round (elapsed C) 2)),
             (''requirements_parsed'', PDict [])])"

text \<open>
  The compatibility analysis by the backend, in \<open>_handle_property_query\<close> and
  \<open>_handle_design_query\<close>, skipped when it raises.
\<close>

definition compatibility_step :: "collaborators \<Rightarrow> pydict \<Rightarrow> pyval \<Rightarrow> pyval \<Rightarrow> pydict" where
  "compatibility_step C property_result components operating_conditions =
     (case backend C of
        Some svc \<Rightarrow>
          (case predict_compatibility svc components operating_conditions of
             Inr llm_analysis \<Rightarrow>
               dict_set property_result ''llm_analysis''
                 (dict_get llm_analysis ''analysis'' (PStr []))
           | Inl e \<Rightarrow> property_result)
      | None \<Rightarrow> property_result)"

definition property_input :: "pydict \<Rightarrow> pyval \<Rightarrow> pydict" where
  "property_input requirements components =
     [(''components'', components),
      (''operating_conditions'', dict_get requirements ''operating_conditions'' (PDict [])),
      (''electrode_materials'', dict_get requirements ''electrode_materials'' (PDict []))]"

text \<open>The text of \<open>_handle_property_query\<close>: issues, recommendations, analysis.\<close>

definition issue_lines :: "(pyval \<Rightarrow> string) \<Rightarrow> pyval \<Rightarrow> error + string list" where
  "issue_lines fmt issue =
     ebind (as_dict issue) (\<lambda>i.
     ebind (as_str (dict_get i ''severity'' (PStr ''unknown''))) (\<lambda>severity.
     Inr [''- **'' @ upper severity @ ''**: '' @ py_str fmt (dict_get i ''issue'' (PStr [])),
          ''  - Solution: '' @ py_str fmt (dict_get i ''solution'' (PStr ''N/A''))]))"

definition property_summary :: "(pyval \<Rightarrow> string) \<Rightarrow> pyval \<Rightarrow> pydict \<Rightarrow> error + string" where
  "property_summary fmt components property_result =
     ebind (py_join '', '' components) (\<lambda>names.
     ebind (if truthy (dict_get property_result ''compatibility_issues'' PNone)
            then ebind (py_iter (dict_get property_result ''compatibility_issues'' PNone))
                   (\<lambda>issues. ebind (emap (issue_lines fmt) issues)
                   (\<lambda>ls. Inr (''### Compatibility Issues:'' # concat ls)))
            else Inr []) (\<lambda>issue_part.
     ebind (if truthy (dict_get property_result ''recommendations'' PNone)
            then ebind (py_iter (dict_get property_result ''recommendations'' PNone))
                   (\<lambda>recs. Inr (([CHR 0x0A] @ ''### Recommendations:'')
                                  # map (\<lambda>r. ''- '' @ py_str fmt r) recs))
            else Inr []) (\<lambda>rec_part.
     Inr (join_with [CHR 0x0A]
       ([''## Property & Compatibility Analysis'' @ [CHR 0x0A],
         ''**Components analyzed**: '' @ names @ [CHR 0x0A]]
        @ issue_part @ rec_part
        @ (if truthy (dict_get property_result ''llm_analysis'' PNone)
           then [[CHR 0x0A] @ ''### GPT-4.1 Analysis:'' @ [CHR 0x0A]
                 @ py_str fmt (dict_get property_result ''llm_analysis'' PNone)]
           else []))))))"

definition handle_property_query :: "collaborators \<Rightarrow> pyval \<Rightarrow> string \<Rightarrow> pydict run" where
  "handle_property_query C user_materials_input query =
     sbind (lift (parse_query C user_materials_input query)) (\<lambda>requirements.
     let components = dict_get requirements ''components'' (PList []) in
     sbind (invoke Property (property_agent C) (property_input requirements components))
       (\<lambda>answer.
     let property_result = compatibility_step C answer components
           (dict_get requirements ''operating_conditions'' (PDict []))
     in
     sbind (lift (property_summary (printer C) components property_result)) (\<lambda>summary.
     sbind (lift (py_len components)) (\<lambda>n.
     ret [(''query'', PStr query),
          (''agent_responses'', PList [PDict
             [(''agent_type'', PStr ''property_compatibility''),
              (''status'', dict_get property_result ''status'' (PStr ''success'')),
              (''message'', PStr (''Analyzed '' @ show_nat n @ '' components'')),
              (''data'', PDict property_result)]]),
          (''experiment_plans'', PList []),
          (''summary'', PStr summary),
          (''processing_time'', PNum (py_round (elapsed C) 2)),
          (''requirements_parsed'', PDict requirements)]))))"


text \<open>
  \<open>_analyze_query_with_llm\<close>: the parsed requirements, with the analysis of the backend
  added when it succeeds.
\<close>

definition analyze_query_with_llm :: "collaborators \<Rightarrow> pyval \<Rightarrow> string \<Rightarrow> error + pydict" where
  "analyze_query_with_llm C user_materials_input query =
     ebind (parse_query C user_materials_input query) (\<lambda>requirements.
     Inr (case backend C of
            Some svc \<Rightarrow>
              (case analyze_electrolyte_query svc query of
                 Inr llm_analysis \<Rightarrow>
                   if dict_get llm_analysis ''status'' PNone = PStr ''success''
                   then dict_set requirements ''llm_analysis''
                          (dict_get llm_analysis ''analysis'' (PStr []))
                   else requirements
               | Inl e \<Rightarrow> requirements)
          | None \<Rightarrow> requirements))"

text \<open>
  \<open>_convert_formulation_to_dict\<close>: the components with a non-empty abbreviation, keyed
  by it. A list or a dictionary cannot be a key; a key that is no string is kept under its
  printed form.
\<close>

fun convert_components :: "(pyval \<Rightarrow> string) \<Rightarrow> pyval list \<Rightarrow> pydict \<Rightarrow> error + pydict" where
  "convert_components fmt [] formulation_dict = Inr formulation_dict"
| "convert_components fmt (c # cs) formulation_dict =
     ebind (as_dict c) (\<lambda>component.
     let abbrev = dict_get component ''abbreviation'' (PStr []);
         concentration = dict_get component ''concentration'' (PNum 0)
     in if truthy abbrev then
          (case abbrev of
             PList xs \<Rightarrow> Inl TypeError
           | PDict d \<Rightarrow> Inl TypeError
           | _ \<Rightarrow> convert_components fmt cs
                   (dict_set formulation_dict (py_str fmt abbrev) concentration))
        else convert_components fmt cs formulation_dict)"

definition convert_formulation_to_dict :: "(pyval \<Rightarrow> string) \<Rightarrow> pyval \<Rightarrow> error + pydict" where
  "convert_formulation_to_dict fmt formulation_list =
     ebind (py_iter formulation_list) (\<lambda>cs. convert_components fmt cs [])"

text \<open>
  Step 4 of \<open>_handle_design_query\<close>, the loop over the plans: the formulation of the plan
  is converted, the predictor is called with it, its answer is written into the plan, and
  an entry is added to the list of predictions.
\<close>

definition prediction_input :: "pydict \<Rightarrow> string \<Rightarrow> pydict \<Rightarrow> pydict" where
  "prediction_input requirements query formulation_dict =
     [(''formulation'', PDict formulation_dict),
      (''operating_conditions'', dict_get requirements ''operating_conditions'' (PDict [])),
      (''electrode_materials'', dict_get requirements ''electrode_materials'' (PDict [])),
      (''battery_type'', dict_get requirements ''battery_type'' (PStr [])),
      (''query_context'', PStr query)]"

definition attach_prediction :: "pydict \<Rightarrow> pydict \<Rightarrow> pydict" where
  "attach_prediction plan prediction_result =
     dict_set
       (dict_set
          (dict_set plan ''predicted_performance''
             (dict_get prediction_result ''predictions'' (PDict [])))
          ''prediction_confidence'' (dict_get prediction_result ''confidence_score'' (PNum 0)))
       ''prediction_notes'' (dict_get prediction_result ''model_notes'' (PList []))"

definition prediction_entry :: "nat \<Rightarrow> pydict \<Rightarrow> pydict \<Rightarrow> pyval" where
  "prediction_entry i plan prediction_result = PDict
     [(''plan_id'', dict_get plan ''plan_id'' (PStr (''plan_'' @ show_nat (i + 1)))),
      (''plan_title'', dict_get plan ''title'' (PStr (''Plan '' @ show_nat (i + 1)))),
      (''predictions'', dict_get prediction_result ''predictions'' (PDict [])),
      (''confidence_score'', dict_get prediction_result ''confidence_score'' (PNum 0))]"

fun predict_plans ::
  "collaborators \<Rightarrow> pydict \<Rightarrow> string \<Rightarrow> nat \<Rightarrow> pyval list \<Rightarrow> (pydict list \<times> pyval list) run" where
  "predict_plans C requirements query i [] = ret ([], [])"
| "predict_plans C requirements query i (plan # rest) =
     sbind (lift (as_dict plan)) (\<lambda>p.
     sbind (lift (convert_formulation_to_dict (printer C)
                    (dict_get p ''formulation'' (PList [])))) (\<lambda>formulation_dict.
     sbind (invoke Predictor (prediction_agent C i)
              (prediction_input requirements query formulation_dict)) (\<lambda>prediction_result.
     sbind (predict_plans C requirements query (Suc i) rest) (\<lambda>later.
     ret (attach_prediction p prediction_result # fst later,
          prediction_entry i (attach_prediction p prediction_result) prediction_result
            # snd later)))))"

text \<open>
  The average over the entries:
  \<open>sum(p.get("confidence_score", 0) for p in all_predictions) / len(all_predictions)\<close>,
  and 0 for no entry.
\<close>

definition entry_confidence :: "pyval \<Rightarrow> error + rat" where
  "entry_confidence entry =
     ebind (as_dict entry) (\<lambda>p. as_num (dict_get p ''confidence_score'' (PNum 0)))"

definition average_confidence :: "pyval list \<Rightarrow> error + rat" where
  "average_confidence all_predictions =
     (if all_predictions = [] then Inr 0
      else ebind (emap entry_confidence all_predictions) (\<lambda>scores.
           Inr (sum_list scores / of_nat (length all_predictions))))"

text \<open>
  The rationale of the backend for each plan, skipped for a plan when it raises.
\<close>

fun rationale_step :: "collaborators \<Rightarrow> pydict \<Rightarrow> nat \<Rightarrow> pydict list \<Rightarrow> pydict list" where
  "rationale_step C requirements i [] = []"
| "rationale_step C requirements i (plan # rest) =
     (case backend C of
        Some svc \<Rightarrow>
          (case generate_formulation_rationale svc i (dict_get plan ''formulation'' (PList []))
                  requirements of
             Inr rationale \<Rightarrow> dict_set plan ''llm_rationale'' (PStr rationale)
           | Inl e \<Rightarrow> plan)
      | None \<Rightarrow> plan)
     # rationale_step C requirements (Suc i) rest"

text \<open>
  The plans are changed in place, so the list under \<open>experiment_plans\<close> of the planner's
  answer shows the changes too. \<open>same_container\<close> puts the changed plans back into the
  object that held them.
\<close>

definition same_container :: "pyval \<Rightarrow> pydict list \<Rightarrow> pyval" where
  "same_container experiment_plans plans =
     (case experiment_plans of
        PList xs \<Rightarrow> PList (map PDict plans)
      | PTuple xs \<Rightarrow> PTuple (map PDict plans)
      | v \<Rightarrow> v)"

text \<open>\<open>_generate_summary_with_llm\<close>: the text of the answer to a design query.\<close>

definition metric_line :: "(pyval \<Rightarrow> string) \<Rightarrow> pyval \<Rightarrow> string \<Rightarrow> string \<Rightarrow> string \<Rightarrow> error + string list" where
  "metric_line fmt predictions k before after =
     ebind (py_in k predictions) (\<lambda>present.
     if present
     then ebind (py_index predictions k) (\<lambda>v. Inr [before @ py_str fmt v @ after])
     else Inr [])"

definition plan_lines :: "(pyval \<Rightarrow> string) \<Rightarrow> nat \<Rightarrow> pyval \<Rightarrow> error + string list" where
  "plan_lines fmt i plan =
     ebind (as_dict plan) (\<lambda>p.
     let predictions = dict_get p ''predicted_performance'' (PDict []);
         confidence = dict_get p ''prediction_confidence'' (PNum 0)
     in
     ebind (dict_index p ''title'') (\<lambda>title.
     ebind (ebind (dict_index p ''priority_score'') (py_format format_2f)) (\<lambda>priority.
     ebind (py_format format_percent confidence) (\<lambda>confidence_text.
     ebind (dict_index p ''estimated_cost'') (\<lambda>cost.
     ebind (dict_index p ''estimated_time'') (\<lambda>time.
     ebind (if truthy predictions then
              ebind (metric_line fmt predictions ''capacity_retention_percent''
                       ''     - Capacity Retention: '' ''%'') (\<lambda>l1.
              ebind (metric_line fmt predictions ''cycle_stability_cycles''
                       ''     - Cycle Life: '' '' cycles'') (\<lambda>l2.
              ebind (metric_line fmt predictions ''rate_capability_2C_percent''
                       ''     - Rate Capability (2C): '' ''%'') (\<lambda>l3.
              ebind (metric_line fmt predictions ''ionic_conductivity_mS_cm''
                       ''     - Ionic Conductivity: '' '' mS/cm'') (\<lambda>l4.
              Inr (''   - **Predicted Performance:**'' # l1 @ l2 @ l3 @ l4)))))
            else Inr []) (\<lambda>metrics.
     Inr (([CHR 0x0A] @ show_nat i @ ''. **'' @ py_str fmt title @ ''** (Priority: ''
            @ priority @ '', Prediction Confidence: '' @ confidence_text @ '')'' @ [CHR 0x0A]
            @ ''   - Cost: '' @ py_str fmt cost @ '', Time: '' @ py_str fmt time)
          # metrics))))))))"

fun plans_lines :: "(pyval \<Rightarrow> string) \<Rightarrow> nat \<Rightarrow> pyval list \<Rightarrow> error + string list" where
  "plans_lines fmt i [] = Inr []"
| "plans_lines fmt i (plan # rest) =
     ebind (plan_lines fmt i plan) (\<lambda>ls.
     ebind (plans_lines fmt (Suc i) rest) (\<lambda>more. Inr (ls @ more)))"

definition generate_summary_with_llm ::
  "(pyval \<Rightarrow> string) \<Rightarrow> string \<Rightarrow> (string \<times> string) list \<Rightarrow> pyval \<Rightarrow> pydict \<Rightarrow> error + string" where
  "generate_summary_with_llm fmt query agent_responses experiment_plans requirements =
     ebind (ebind (dict_index requirements ''operating_conditions'') as_dict) (\<lambda>oc.
     ebind (ebind (dict_index requirements ''electrode_materials'') as_dict) (\<lambda>em.
     ebind (as_str (dict_get requirements ''application'' (PStr ''general''))) (\<lambda>application.
     ebind (ebind (dict_index requirements ''components'') (py_join '', '')) (\<lambda>components.
     ebind (py_slice3 experiment_plans) (\<lambda>first_plans.
     ebind (plans_lines fmt 1 first_plans) (\<lambda>plan_part.
     Inr (join_with [CHR 0x0A]
       ([''## Analysis Summary for Query: '' @ [CHR 0x22] @ query @ [CHR 0x22, CHR 0x0A],
         ''### Interpreted Requirements:'',
         ''- **Target voltage**: '' @ py_str fmt (dict_get oc ''max_voltage'' (PNum (42 / 10)))
           @ ''V'',
         ''- **Electrode system**: '' @ py_str fmt (dict_get em ''cathode'' (PStr ''NMC''))
           @ '' / '' @ py_str fmt (dict_get em ''anode'' (PStr ''graphite'')),
         ''- **Application**: '' @ title_case (replace_underscores application),
         ''- **Key components identified**: '' @ components,
         [CHR 0x0A] @ ''### Agent Analysis:'']
        @ map (\<lambda>r. ''- **'' @ title_case (replace_underscores (fst r)) @ ''**: '' @ snd r)
            agent_responses
        @ [[CHR 0x0A] @ ''### Recommended Experiments with Predicted Performance:'']
        @ plan_part
        @ [[CHR 0x0A] @ ''---'' @ [CHR 0x0A]
           @ ''*Analysis powered by GPT-4.1 and multi-agent coordination*'']))))))))"


text \<open>
  \<open>_handle_design_query\<close>: literature, property check, planning, then one prediction per
  plan; the entries of \<open>agent_responses\<close> follow the same order.
\<close>

definition planning_input :: "pydict \<Rightarrow> string \<Rightarrow> pydict \<Rightarrow> pydict \<Rightarrow> pydict" where
  "planning_input requirements query literature_result property_result =
     [(''query'', PStr query),
      (''literature_data'', PDict literature_result),
      (''property_data'', PDict property_result),
      (''target_application'', dict_get requirements ''application'' (PStr ''general'')),
      (''battery_type'', dict_get requirements ''battery_type'' (PStr [])),
      (''operating_conditions'', dict_get requirements ''operating_conditions'' (PDict [])),
      (''electrode_materials'', dict_get requirements ''electrode_materials'' (PDict [])),
      (''user_specified_materials'',
         dict_get requirements ''user_specified_materials'' (PList [])),
      (''detected_components'', dict_get requirements ''components'' (PList []))]"

definition property_message :: "nat \<Rightarrow> nat \<Rightarrow> string" where
  "property_message n_components n_issues =
     ''Analyzed '' @ show_nat n_components @ '' components, found '' @ show_nat n_issues
     @ '' issues''"

definition planning_message :: "(pyval \<Rightarrow> string) \<Rightarrow> pydict \<Rightarrow> string" where
  "planning_message fmt planning_result =
     ''Generated '' @ py_str fmt (dict_get planning_result ''total_plans'' (PNum 0))
     @ '' experiment plans with formulations''"

definition prediction_message :: "nat \<Rightarrow> rat \<Rightarrow> string" where
  "prediction_message n avg_confidence =
     ''Evaluated '' @ show_nat n @ '' formulations with '' @ format_percent avg_confidence
     @ '' average confidence''"

definition handle_design_query :: "collaborators \<Rightarrow> pyval \<Rightarrow> string \<Rightarrow> pydict run" where
  "handle_design_query C user_materials_input query =
     sbind (lift (analyze_query_with_llm C user_materials_input query)) (\<lambda>requirements.
     sbind (invoke Literature (literature_agent C) [(''query'', PStr query)]) (\<lambda>answer1.
     let literature_result = summarize_step C answer1 query;
         components = dict_get requirements ''components''
                        (PList [PStr ''EC'', PStr ''EMC'', PStr ''LiPF6'', PStr ''VC''])
     in
     sbind (invoke Property (property_agent C) (property_input requirements components))
       (\<lambda>answer2.
     let property_result = compatibility_step C answer2 components
           (dict_get requirements ''operating_conditions'' (PDict []))
     in
     sbind (lift (py_len components)) (\<lambda>n_components.
     sbind (lift (py_len (dict_get property_result ''compatibility_issues'' (PList []))))
       (\<lambda>n_issues.
     sbind (invoke Planner (planning_agent C)
              (planning_input requirements query literature_result property_result))
       (\<lambda>planning_result.
     let experiment_plans = dict_get planning_result ''experiment_plans'' (PList []) in
     sbind (lift (py_iter experiment_plans)) (\<lambda>plans.
     sbind (predict_plans C requirements query 0 plans) (\<lambda>predicted.
     sbind (lift (average_confidence (snd predicted))) (\<lambda>avg_confidence.
     sbind (lift (py_len experiment_plans)) (\<lambda>n_plans.
     let final_plans = same_container experiment_plans
                         (rationale_step C requirements 0 (fst predicted));
         planning_data = (if has_key planning_result ''experiment_plans''
                          then dict_set planning_result ''experiment_plans'' final_plans
                          else planning_result);
         messages =
           [(''literature_rag'',
               ''Found '' @ py_str (printer C)
                  (dict_get literature_result ''sources_count'' (PNum 0))
               @ '' relevant sources''),
            (''property_compatibility'', property_message n_components n_issues),
            (''experiment_planning'', planning_message (printer C) planning_result),
            (''performance_prediction'', prediction_message n_plans avg_confidence)]
     in
     sbind (lift (generate_summary_with_llm (printer C) query messages final_plans requirements))
       (\<lambda>summary.
     ret [(''query'', PStr query),
          (''agent_responses'', PList
             [literature_response C literature_result,
              PDict [(''agent_type'', PStr ''property_compatibility''),
                     (''status'', dict_get property_result ''status'' (PStr ''success'')),
                     (''message'', PStr (property_message n_components n_issues)),
                     (''data'', PDict property_result)],
              PDict [(''agent_type'', PStr ''experiment_planning''),
                     (''status'', dict_get planning_result ''status'' (PStr ''success'')),
                     (''message'', PStr (planning_message (printer C) planning_result)),
                     (''data'', PDict planning_data)],
              PDict [(''agent_type'', PStr ''performance_prediction''),
                     (''status'', PStr ''success''),
                     (''message'', PStr (prediction_message n_plans avg_confidence)),
                     (''data'', PDict
                        [(''predictions_per_plan'', PList (snd predicted)),
                         (''average_confidence'', PNum (py_round avg_confidence 2)),
                         (''total_plans_evaluated'', PNum (of_nat n_plans))])]]),
          (''experiment_plans'', final_plans),
          (''summary'', PStr summary),
          (''processing_time'', PNum (py_round (elapsed C) 2)),
          (''requirements_parsed'', PDict requirements)])))))))))))"

text \<open>
  \<open>OrchestratorAgent.process\<close>: the query is classified; the classification is logged
  with its type and its confidence; a query that is not to be delegated is answered
  directly when there is a direct answer; otherwise the type selects the literature
  search, the property check or the design workflow.
\<close>

definition delegate :: "collaborators \<Rightarrow> pyval \<Rightarrow> string \<Rightarrow> pyval \<Rightarrow> pydict run" where
  "delegate C user_materials_input query query_type =
     (if query_type = PStr ''literature_search'' then handle_literature_query C query
      else if query_type = PStr ''property_check''
        then handle_property_query C user_materials_input query
      else handle_design_query C user_materials_input query)"

definition process :: "collaborators \<Rightarrow> pydict \<Rightarrow> pydict run" where
  "process C input_data =
     (let user_materials_input = dict_get input_data ''user_materials_input'' (PStr []) in
      sbind (lift (as_str (dict_get input_data ''query'' (PStr [])))) (\<lambda>query.
      let classification = classify_query (backend C) (json_decoder C) query in
      sbind (lift (py_index classification ''query_type'')) (\<lambda>query_type.
      sbind (lift (ebind (py_index classification ''confidence'') (py_format format_2f)))
        (\<lambda>confidence.
      sbind (lift (as_dict classification)) (\<lambda>c.
      if \<not> truthy (dict_get c ''should_delegate'' (PBool True)) then
        sbind (lift (handle_simple_query C query query_type)) (\<lambda>simple_response.
        case simple_response of
          Some response \<Rightarrow> ret response
        | None \<Rightarrow> delegate C user_materials_input query query_type)
      else delegate C user_materials_input query query_type)))))"

text \<open>
  Reading a response, for the statements below: the six entries every response has, the
  confidence each plan carries, the reported average, and the arithmetic mean.
\<close>

definition response_keys :: "string list" where
  "response_keys = [''query'', ''agent_responses'', ''experiment_plans'', ''summary'',
     ''processing_time'', ''requirements_parsed'']"

definition plan_confidence :: "pyval \<Rightarrow> rat" where
  "plan_confidence plan =
     (case as_num (plan_entry ''prediction_confidence'' plan) of Inr x \<Rightarrow> x | Inl e \<Rightarrow> 0)"

definition response_plans :: "pydict \<Rightarrow> pyval list" where
  "response_plans r =
     (case dict_get r ''experiment_plans'' PNone of
        PList ps \<Rightarrow> ps | PTuple ps \<Rightarrow> ps | _ \<Rightarrow> [])"

definition reported_average :: "pydict \<Rightarrow> pyval" where
  "reported_average r =
     (case dict_get r ''agent_responses'' PNone of
        PList [r1, r2, r3, PDict r4] \<Rightarrow>
          (case dict_get r4 ''data'' PNone of
             PDict d \<Rightarrow> dict_get d ''average_confidence'' PNone
           | _ \<Rightarrow> PNone)
      | _ \<Rightarrow> PNone)"

definition response_of :: "(error + pydict) \<times> call list \<Rightarrow> pydict" where
  "response_of outcome = (case fst outcome of Inr r \<Rightarrow> r | Inl e \<Rightarrow> [])"

definition mean :: "rat list \<Rightarrow> rat" where
  "mean xs = sum_list xs / of_nat (length xs)"


text \<open>
  The coordinator without a backend, as it runs when the language-model service cannot be
  loaded: the four agents fall back to their tables, no document store is configured, the
  jitter of the \<open>i\<close>-th prediction is \<open>i\<close>. \<open>zinc_requirements\<close> is what \<open>_parse_query\<close>
  extracts from the query \<open>zinc\<close>: the zinc chemistry with its voltage, temperature and
  electrodes, and no component.
\<close>

definition zinc_requirements :: pydict where
  "zinc_requirements =
     [(''components'', PList []),
      (''operating_conditions'',
         PDict [(''max_voltage'', PNum (18 / 10)), (''max_temperature'', PNum 50)]),
      (''electrode_materials'',
         PDict [(''anode'', PStr ''zinc metal''), (''cathode'', PStr ''MnO2'')]),
      (''application'', PStr ''general''),
      (''battery_type'', PStr ''zinc'')]"

definition offline :: collaborators where
  "offline =
     \<lparr>literature_agent = literature_process None no_fmt,
      property_agent = property_process,
      planning_agent = planner_process None no_prompt no_parse no_fmt fixed_ids,
      prediction_agent = (\<lambda>i d. ebind (prediction_process None (\<lambda>f. []) no_parse d (of_nat i)) as_dict),
      backend = None,
      parse_query = (\<lambda>materials query. Inr zinc_requirements),
      json_decoder = no_parse,
      printer = no_fmt,
      elapsed = 0\<rparr>"

definition returned :: "(error + 'a) \<times> call list \<Rightarrow> bool" where
  "returned outcome = (case fst outcome of Inr r \<Rightarrow> True | Inl e \<Rightarrow> False)"


section \<open>Properties of the helpers\<close>

lemma contains_iff: "contains sub s \<longleftrightarrow> (\<exists>pre post. s = pre @ sub @ post)"
proof (induction s)
  case Nil
  then show ?case by simp
next
  case (Cons c cs)
  have "startswith (c # cs) sub \<longleftrightarrow> (\<exists>post. c # cs = sub @ post)"
    unfolding startswith_def
    by (metis append_eq_conv_conj append_take_drop_id)
  moreover have "(\<exists>pre post. c # cs = pre @ sub @ post) \<longleftrightarrow>
      (\<exists>post. c # cs = sub @ post) \<or> (\<exists>pre post. cs = pre @ sub @ post)"
  proof
    assume "\<exists>pre post. c # cs = pre @ sub @ post"
    then obtain pre post where e: "c # cs = pre @ sub @ post" by blast
    show "(\<exists>post. c # cs = sub @ post) \<or> (\<exists>pre post. cs = pre @ sub @ post)"
    proof (cases pre)
      case Nil
      with e show ?thesis by auto
    next
      case (Cons p ps)
      with e have "cs = ps @ sub @ post" by simp
      then show ?thesis by blast
    qed
  next
    assume "(\<exists>post. c # cs = sub @ post) \<or> (\<exists>pre post. cs = pre @ sub @ post)"
    then show "\<exists>pre post. c # cs = pre @ sub @ post"
    proof
      assume "\<exists>post. c # cs = sub @ post"
      then obtain post where "c # cs = [] @ sub @ post" by auto
      then show ?thesis by blast
    next
      assume "\<exists>pre post. cs = pre @ sub @ post"
      then obtain pre post where "c # cs = (c # pre) @ sub @ post" by auto
      then show ?thesis by blast
    qed
  qed
  ultimately show ?case using Cons.IH by simp
qed

lemma floor_rat_numeral [simp]:
  "\<lfloor>numeral a / numeral b :: rat\<rfloor> = numeral a div numeral b"
  by (metis floor_divide_of_int_eq of_int_numeral)

lemma floor_rat_neg_numeral [simp]:
  "\<lfloor>- (numeral a / numeral b) :: rat\<rfloor> = - numeral a div numeral b"
  by (metis floor_divide_of_int_eq of_int_numeral of_int_minus minus_divide_left)












lemma any_indicatorI:
  "ind \<in> set indicators \<Longrightarrow> c \<in> set comps \<Longrightarrow> contains ind c
     \<Longrightarrow> any_indicator indicators comps"
  unfolding any_indicator_def list_ex_iff by blast

section \<open>Performance predictor: chemistry detection and the basic estimation\<close>

text \<open>
  Claim C9. The lithium indicators are tried first, by substring containment on the
  upper-cased component names: a formulation with any component whose upper-cased name
  contains \<open>LI\<close> is classified as lithium-ion, whatever else it holds. The witness is
  the zinc electrolyte with LiTFSI as additive.
\<close>

theorem detect_chemistry_lithium_first:
  assumes "k \<in> set (map fst formulation)" and "contains ''LI'' (upper k)"
  shows "detect_chemistry formulation = ''lithium-ion''"
proof -
  have "''LI'' \<in> set li_indicators" by (simp add: li_indicators_def)
  moreover have "upper k \<in> set (map (\<lambda>k. upper k) (map fst formulation))"
    using assms(1) by auto
  ultimately have "any_indicator li_indicators (map (\<lambda>k. upper k) (map fst formulation))"
    using assms(2) by (rule any_indicatorI)
  then show ?thesis by (simp add: detect_chemistry_def)
qed

theorem detect_chemistry_lithium_first_witness:
  "''LiTFSI'' \<in> set (map fst
      [(''Zn(CF3SO3)2'', PNum 3), (''H2O'', PNum 100), (''LiTFSI'', PNum (1 / 2))])
   \<and> contains ''LI'' (upper ''LiTFSI'')
   \<and> detect_chemistry
      [(''Zn(CF3SO3)2'', PNum 3), (''H2O'', PNum 100), (''LiTFSI'', PNum (1 / 2))]
     = ''lithium-ion''"
proof -
  have a: "''LiTFSI'' \<in> set (map fst
      [(''Zn(CF3SO3)2'', PNum 3), (''H2O'', PNum 100), (''LiTFSI'', PNum (1 / 2))])"
    by simp
  have b: "contains ''LI'' (upper ''LiTFSI'')"
    by (simp add: upper_def upper_char_def startswith_def)
  show ?thesis using a b detect_chemistry_lithium_first [OF a b] by simp
qed



section \<open>Property and compatibility responder: the verdict and the rules\<close>

lemma ebind_Inr: "ebind m f = Inr y \<longleftrightarrow> (\<exists>x. m = Inr x \<and> f x = Inr y)"
  unfolding ebind_def by (cases m) auto

lemma is_critical_Inr:
  "is_critical issue = Inr b \<Longrightarrow> b = (severity_of issue = PStr ''critical'')"
  unfolding is_critical_def severity_of_def dict_index_def dict_get_def
  by (cases issue) (auto simp: ebind_Inr split: option.splits)

lemma emap_is_critical:
  "emap is_critical issues = Inr crit \<Longrightarrow>
     (length (filter (\<lambda>b. b) crit) = 0) = (\<forall>i \<in> set issues. severity_of i \<noteq> PStr ''critical'')"
proof (induction issues arbitrary: crit)
  case Nil
  then show ?case by simp
next
  case (Cons i issues)
  from Cons.prems obtain b bs where b: "is_critical i = Inr b"
    and bs: "emap is_critical issues = Inr bs" and crit: "crit = b # bs"
    by (auto simp: ebind_Inr)
  from Cons.IH [OF bs] is_critical_Inr [OF b] crit show ?case by auto
qed

text \<open>
  Claim C8. Every result of \<open>process\<close> has the entry \<open>is_compatible\<close>, and it is true
  exactly when no issue listed under \<open>compatibility_issues\<close> of the same result has
  severity \<open>critical\<close>.
\<close>

theorem is_compatible_iff_no_critical:
  assumes "property_process input_data = Inr r"
  shows "\<exists>issues. has_key r ''is_compatible''
     \<and> dict_get r ''compatibility_issues'' PNone = PList issues
     \<and> dict_get r ''is_compatible'' PNone =
         PBool (\<forall>i \<in> set issues. severity_of i \<noteq> PStr ''critical'')"
proof -
  from assms obtain props agg issues recs crit where
    crit: "emap is_critical issues = Inr crit" and
    r: "r = [(''status'', PStr ''success''),
           (''component_properties'', PDict props),
           (''aggregate_properties'', agg),
           (''compatibility_issues'', PList issues),
           (''recommendations'', PList recs),
           (''is_compatible'', PBool (length (filter (\<lambda>b. b) crit) = 0))]"
    unfolding property_process_def Let_def by (auto simp: ebind_Inr)
  from emap_is_critical [OF crit] r show ?thesis
    by (simp add: has_key_def dict_get_def)
qed


lemma property_process_pc:
  "property_process [(''components'', PList [PStr ''PC''])] =
     Inr [(''status'', PStr ''success''),
          (''component_properties'', PDict [(''PC'', PDict
             [(''molecular_weight'', PNum (10209 / 100)), (''density'', PNum (120 / 100)),
              (''viscosity'', PNum (25 / 10)), (''dielectric_constant'', PNum (649 / 10)),
              (''melting_point'', PNum (- (488 / 10))), (''boiling_point'', PNum 242),
              (''flash_point'', PNum 132), (''oxidation_potential'', PNum (66 / 10)),
              (''reduction_potential'', PNum (9 / 10)), (''category'', PStr ''solvent'')])]),
          (''aggregate_properties'', PDict
             [(''estimated_viscosity_mPas'', PNum (25 / 10)),
              (''estimated_dielectric_constant'', PNum (649 / 10)),
              (''electrochemical_window'', PTuple [PNum (9 / 10), PNum (66 / 10)]),
              (''window_width_V'', PNum (57 / 10))]),
          (''compatibility_issues'', PList [PDict
             [(''rule_id'', PStr ''PC_graphite''),
              (''issue'', PStr ''PC causes graphite exfoliation due to co-intercalation''),
              (''severity'', PStr ''critical''),
              (''solution'', PStr ''Use EC-based electrolyte or add FEC (10%)'')]]),
          (''recommendations'', PList
             [PStr ''PRIORITY: Use EC-based electrolyte or add FEC (10%)'',
              PStr ''Consider adding VC (1-2 wt%) for improved cycle life'']),
          (''is_compatible'', PBool False)]"
  by code_simp

theorem is_compatible_iff_no_critical_witness:
  "\<exists>r. property_process [(''components'', PList [PStr ''PC''])] = Inr r
     \<and> (\<exists>issues. has_key r ''is_compatible''
          \<and> dict_get r ''compatibility_issues'' PNone = PList issues
          \<and> dict_get r ''is_compatible'' PNone =
              PBool (\<forall>i \<in> set issues. severity_of i \<noteq> PStr ''critical''))"
  using is_compatible_iff_no_critical [OF property_process_pc] property_process_pc
  by blast

text \<open>
  Claim C1 asks that a rule whose component is listed and whose condition holds is
  reported, in particular LiPF6 above 60 degrees and LiTFSI above 3.8 V. The guards of
  \<open>_check_compatibility\<close> look for the mixed-case literals \<open>LiPF6\<close> and \<open>LiTFSI\<close> in
  lists that were upper-cased just before, so neither test is ever made: with LiPF6 at
  70 degrees, and with LiTFSI at 4.2 V, no issue is returned.
\<close>

theorem lipf6_thermal_rule_not_reported:
  "check_compatibility (PList [PStr ''LiPF6'']) (PDict [(''max_temperature'', PNum 70)])
      (PDict []) = Inr []
   \<and> check_compatibility (PList [PStr ''LiTFSI'']) (PDict [(''max_voltage'', PNum (42 / 10))])
      (PDict []) = Inr []
   \<and> (\<exists>r. property_process
         [(''components'', PList [PStr ''LiPF6'']),
          (''operating_conditions'', PDict [(''max_temperature'', PNum 70)])] = Inr r
        \<and> dict_get r ''compatibility_issues'' PNone = PList [])"
proof -
  have "check_compatibility (PList [PStr ''LiPF6'']) (PDict [(''max_temperature'', PNum 70)])
      (PDict []) = Inr []"
    by code_simp
  moreover have "check_compatibility (PList [PStr ''LiTFSI''])
      (PDict [(''max_voltage'', PNum (42 / 10))]) (PDict []) = Inr []"
    by code_simp
  moreover have "property_process
         [(''components'', PList [PStr ''LiPF6'']),
          (''operating_conditions'', PDict [(''max_temperature'', PNum 70)])] =
      Inr [(''status'', PStr ''success''),
           (''component_properties'', PDict [(''LIPF6'', PDict
              [(''status'', PStr ''unknown''), (''note'', PStr ''Not in database'')])]),
           (''aggregate_properties'', PDict []),
           (''compatibility_issues'', PList []),
           (''recommendations'', PList
              [PStr ''Consider LiFSI or LiBF4 instead of LiPF6 for thermal stability'',
               PStr ''Consider adding VC (1-2 wt%) for improved cycle life'']),
           (''is_compatible'', PBool True)]"
    by code_simp
  ultimately show ?thesis by (simp add: dict_get_def)
qed

section \<open>Planner: the fallback plans and the recommendation\<close>

lemma templates_get_cases:
  "templates_get bt \<in> {zinc_templates, sodium_ion_templates, lithium_ion_templates,
     magnesium_templates}"
  by (simp add: templates_get_def templates_def)

lemma template_components_well_formed:
  assumes "c \<in> {zinc_templates, sodium_ion_templates, lithium_ion_templates,
     magnesium_templates}"
  shows "list_all well_formed_component (t_formulation (advanced c))
     \<and> list_all well_formed_component (t_formulation (optimized c))
     \<and> list_all well_formed_component (t_formulation (baseline c))"
  using assms
  by (auto simp: zinc_templates_def sodium_ion_templates_def lithium_ion_templates_def
      magnesium_templates_def well_formed_component_def component_def has_key_def)

lemma select_protocols_Inr: "\<exists>ps. select_protocols = Inr ps \<and> ps \<noteq> []"
  by (simp add: select_protocols_def base_protocols_def dict_index_def ebind_def)


lemma add_protocols_fallback:
  assumes "select_protocols = Inr ps"
  shows "add_protocols (PList (generate_fallback_plans uuids bt)) =
     Inr (map (\<lambda>(i, t). (case fallback_plan (uuids i) bt t of PDict p \<Rightarrow> p | _ \<Rightarrow> [])
                 @ [(''protocols'', PList ps)])
            [(0, advanced (templates_get bt)), (1, optimized (templates_get bt)),
             (2, baseline (templates_get bt))])"
  unfolding add_protocols_def generate_fallback_plans_def fallback_plan_def Let_def
  by (simp add: assms ebind_def dict_set_def)

lemma planner_process_fallback:
  assumes "dict_get input_data ''query'' (PStr []) = PStr q"
    and "dict_get input_data ''battery_type'' (PStr []) = PStr bt"
    and "chem = (if bt = [] then detect_battery_type q else bt)"
  shows "\<exists>ps rec. ps \<noteq> [] \<and>
     planner_process None build_prompt parse_llm_plans fmt uuids input_data =
       Inr [(''status'', PStr ''success''),
            (''experiment_plans'', PList (map PDict
               (map (\<lambda>(i, t). (case fallback_plan (uuids i) chem t of PDict p \<Rightarrow> p | _ \<Rightarrow> [])
                       @ [(''protocols'', PList ps)])
                  [(0, advanced (templates_get chem)), (1, optimized (templates_get chem)),
                   (2, baseline (templates_get chem))]))),
            (''total_plans'', PNum 3),
            (''battery_type'', PStr chem),
            (''recommendation'', PStr rec)]"
proof -
  obtain ps where ps: "select_protocols = Inr ps" "ps \<noteq> []"
    using select_protocols_Inr by blast
  have bt: "ebind (if \<not> truthy (PStr bt)
             then ebind (as_str (PStr q)) (\<lambda>q. Inr (detect_battery_type q))
             else as_str (PStr bt)) f = f chem" for f :: "string \<Rightarrow> error + pydict"
    by (simp add: assms(3) ebind_def)
  show ?thesis
    unfolding planner_process_def Let_def assms(1,2) bt option.case
      add_protocols_fallback [OF ps(1)]
    using ps(2)
    by (simp add: ebind_def generate_recommendation_def fallback_plan_def dict_index_def
        dict_get_def)
qed

text \<open>
  Claim C4. Without a backend, for every query and battery type given as strings, the
  planner returns exactly three plans, built from the advanced, optimized and baseline
  templates of the detected chemistry (the lithium-ion templates when the table has no row
  for it); every component of every formulation has the entries name, abbreviation,
  concentration, unit and role, every plan carries a non-empty list of protocols, and
  \<open>total_plans\<close> is 3.
\<close>

theorem fallback_three_plans:
  assumes "dict_get input_data ''query'' (PStr []) = PStr q"
    and "dict_get input_data ''battery_type'' (PStr []) = PStr bt"
  shows "\<exists>r plans.
     planner_process None build_prompt parse_llm_plans fmt uuids input_data = Inr r
     \<and> dict_get r ''experiment_plans'' PNone = PList plans
     \<and> length plans = 3
     \<and> map (plan_entry ''title'') plans =
         map (\<lambda>t. PStr (t_title t))
           (let c = templates_get (if bt = [] then detect_battery_type q else bt)
            in [advanced c, optimized c, baseline c])
     \<and> map (plan_entry ''formulation'') plans =
         map (\<lambda>t. PList (t_formulation t))
           (let c = templates_get (if bt = [] then detect_battery_type q else bt)
            in [advanced c, optimized c, baseline c])
     \<and> list_all well_formed_plan plans
     \<and> dict_get r ''total_plans'' PNone = PNum 3"
proof -
  define chem where "chem = (if bt = [] then detect_battery_type q else bt)"
  have wf: "list_all well_formed_component (t_formulation (advanced (templates_get chem)))"
    "list_all well_formed_component (t_formulation (optimized (templates_get chem)))"
    "list_all well_formed_component (t_formulation (baseline (templates_get chem)))"
    using template_components_well_formed [OF templates_get_cases] by blast+
  from planner_process_fallback [OF assms chem_def] obtain ps rec where
    "ps \<noteq> []" and
    "planner_process None build_prompt parse_llm_plans fmt uuids input_data =
       Inr [(''status'', PStr ''success''),
            (''experiment_plans'', PList (map PDict
               (map (\<lambda>(i, t). (case fallback_plan (uuids i) chem t of PDict p \<Rightarrow> p | _ \<Rightarrow> [])
                       @ [(''protocols'', PList ps)])
                  [(0, advanced (templates_get chem)), (1, optimized (templates_get chem)),
                   (2, baseline (templates_get chem))]))),
            (''total_plans'', PNum 3),
            (''battery_type'', PStr chem),
            (''recommendation'', PStr rec)]"
    by blast
  then show ?thesis
    unfolding chem_def [symmetric] Let_def using wf
    by (simp add: fallback_plan_def dict_get_def plan_entry_def well_formed_plan_def)
qed

theorem fallback_three_plans_witness:
  "dict_get [(''query'', PStr ''zinc battery'')] ''query'' (PStr []) = PStr ''zinc battery''
   \<and> dict_get [(''query'', PStr ''zinc battery'')] ''battery_type'' (PStr []) = PStr []
   \<and> (\<exists>r plans.
        planner_process None no_prompt no_parse no_fmt fixed_ids
          [(''query'', PStr ''zinc battery'')] = Inr r
        \<and> dict_get r ''experiment_plans'' PNone = PList plans
        \<and> length plans = 3
        \<and> map (plan_entry ''title'') plans =
            [PStr ''Water-in-Salt Zinc Electrolyte'', PStr ''Optimized Zinc Triflate Electrolyte'',
             PStr ''Baseline Aqueous Zinc Electrolyte'']
        \<and> map (plan_entry ''formulation'') plans =
            map (\<lambda>t. PList (t_formulation t))
              [advanced zinc_templates, optimized zinc_templates, baseline zinc_templates]
        \<and> list_all well_formed_plan plans
        \<and> dict_get r ''total_plans'' PNone = PNum 3)"
proof -
  have a: "dict_get [(''query'', PStr ''zinc battery'')] ''query'' (PStr [])
      = PStr ''zinc battery''"
    by (simp add: dict_get_def)
  have b: "dict_get [(''query'', PStr ''zinc battery'')] ''battery_type'' (PStr []) = PStr []"
    by (simp add: dict_get_def)
  have c: "detect_battery_type ''zinc battery'' = ''zinc''"
    by code_simp
  have t: "templates_get ''zinc'' = zinc_templates"
    by (simp add: templates_get_def templates_def)
  have "\<exists>r plans.
        planner_process None no_prompt no_parse no_fmt fixed_ids
          [(''query'', PStr ''zinc battery'')] = Inr r
        \<and> dict_get r ''experiment_plans'' PNone = PList plans
        \<and> length plans = 3
        \<and> map (plan_entry ''title'') plans =
            [PStr ''Water-in-Salt Zinc Electrolyte'', PStr ''Optimized Zinc Triflate Electrolyte'',
             PStr ''Baseline Aqueous Zinc Electrolyte'']
        \<and> map (plan_entry ''formulation'') plans =
            map (\<lambda>t. PList (t_formulation t))
              [advanced zinc_templates, optimized zinc_templates, baseline zinc_templates]
        \<and> list_all well_formed_plan plans
        \<and> dict_get r ''total_plans'' PNone = PNum 3"
    using fallback_three_plans [OF a b, where build_prompt = no_prompt
      and parse_llm_plans = no_parse and fmt = no_fmt and uuids = fixed_ids]
    by (simp add: c t zinc_templates_def)
  from conjI [OF a conjI [OF b this]] show ?thesis .
qed














section \<open>Literature responder: order of the results\<close>

lemma non_increasing_iff: "non_increasing xs \<longleftrightarrow> sorted_wrt (\<lambda>a b. b \<le> a) xs"
  by (induction xs rule: non_increasing.induct) (auto, meson order_trans)

lemma constant_non_increasing:
  "\<forall>x \<in> set xs. f x = (c :: rat) \<Longrightarrow> sorted_wrt (\<lambda>a b. b \<le> a) (map f xs)"
  by (induction xs) auto

lemma relevance_of_result_dict [simp]: "relevance_of (result_dict x) = r_relevance x"
  by (simp add: relevance_of_def result_dict_def dict_get_def)

lemma kb_section_relevance:
  "x \<in> set (kb_section kind table query_lower) \<Longrightarrow> r_relevance x = 9 / 10"
  by (auto simp: kb_section_def kb_result_def)

lemma trend_results_relevance:
  "x \<in> set (trend_results query_lower) \<Longrightarrow> r_relevance x = 75 / 100"
  by (auto simp: trend_results_def trend_result_def split: if_splits)

lemma search_knowledge_base_ranked:
  "non_increasing (map r_relevance (search_knowledge_base q))"
proof -
  define top where "top = kb_section ''Solvent'' common_solvents (lower q)
      @ kb_section ''Salt'' common_salts (lower q)
      @ kb_section ''Additive'' common_additives (lower q)"
  have top: "\<forall>x \<in> set top. r_relevance x = 9 / 10"
    unfolding top_def using kb_section_relevance by auto
  have low: "\<forall>x \<in> set (trend_results (lower q)). r_relevance x = 75 / 100"
    using trend_results_relevance by auto
  have cross: "r_relevance y \<le> r_relevance x"
    if "x \<in> set top" and "y \<in> set (trend_results (lower q))" for x y
  proof -
    from that(1) top have "r_relevance x = 9 / 10" by blast
    moreover from that(2) low have "r_relevance y = 75 / 100" by blast
    ultimately show ?thesis by simp
  qed
  have "sorted_wrt (\<lambda>a b. b \<le> a) (map r_relevance (top @ trend_results (lower q)))"
    using cross constant_non_increasing [OF top] constant_non_increasing [OF low]
    by (simp add: sorted_wrt_append)
  then show ?thesis
    by (simp add: non_increasing_iff search_knowledge_base_def top_def Let_def)
qed

text \<open>
  Claim C7 as amended. For every query string the result list is the results of the
  document store, in the order the store gave them, followed by the results of the
  knowledge base; the two parts are not merged by score. The knowledge-base part is
  ordered by non-increasing relevance score (0.9 for table entries, then 0.75 for trends),
  so the whole list is when there is no document store; \<open>sources_count\<close> is the number
  of results.
\<close>

theorem literature_results_order:
  assumes "dict_get input_data ''query'' (PStr []) = PStr q"
  shows "\<exists>r rag kb.
       literature_process store fmt input_data = Inr r
     \<and> rag = map result_dict (search_vector_store store q 5)
     \<and> kb = map result_dict (search_knowledge_base q)
     \<and> dict_get r ''results'' PNone = PList (rag @ kb)
     \<and> non_increasing (map relevance_of kb)
     \<and> (store = None \<longrightarrow> non_increasing (map relevance_of (rag @ kb)))
     \<and> dict_get r ''sources_count'' PNone = PNum (of_nat (length (rag @ kb)))"
proof -
  have kb: "non_increasing (map relevance_of (map result_dict (search_knowledge_base q)))"
    using search_knowledge_base_ranked [of q] by (simp add: comp_def)
  moreover have "store = None \<Longrightarrow> search_vector_store store q 5 = []"
    by (simp add: search_vector_store_def)
  ultimately show ?thesis
    using assms
    by (auto simp: literature_process_def ebind_def Let_def dict_get_def)
qed

text \<open>
  Claim C7 asks for one descending ranking. With a store that holds one document at
  distance 1 (similarity 0.5) and the query \<open>EC\<close>, the list is the document at 0.5
  followed by the knowledge-base entry at 0.9.
\<close>

lemma ec_query: "search_knowledge_base ''EC'' = [kb_result ''Solvent'' (hd common_solvents)]"
  by code_simp

theorem literature_results_not_ranked:
  "\<not> non_increasing (map relevance_of (results_of
       (literature_process (Some one_document_store) no_fmt [(''query'', PStr ''EC'')])))"
  by (simp add: literature_process_def ebind_def Let_def dict_get_def results_of_def ec_query
      search_vector_store_def one_document_store_def scored_result_def kb_result_def
      py_round_def round_half_even_def)

theorem literature_results_order_witness:
  "dict_get [(''query'', PStr ''EC'')] ''query'' (PStr []) = PStr ''EC''
   \<and> (\<exists>r rag kb.
       literature_process (Some one_document_store) no_fmt [(''query'', PStr ''EC'')] = Inr r
     \<and> rag = map result_dict (search_vector_store (Some one_document_store) ''EC'' 5)
     \<and> kb = map result_dict (search_knowledge_base ''EC'')
     \<and> dict_get r ''results'' PNone = PList (rag @ kb)
     \<and> non_increasing (map relevance_of kb)
     \<and> (Some one_document_store = None \<longrightarrow> non_increasing (map relevance_of (rag @ kb)))
     \<and> dict_get r ''sources_count'' PNone = PNum (of_nat (length (rag @ kb))))"
proof -
  have a: "dict_get [(''query'', PStr ''EC'')] ''query'' (PStr []) = PStr ''EC''"
    by (simp add: dict_get_def)
  from conjI [OF a literature_results_order [OF a, of "Some one_document_store" no_fmt]]
  show ?thesis .
qed

section \<open>Query classifier: the default route\<close>

text \<open>
  Claim C6. For a query that is neither a greeting nor a help request, when there is no
  backend, or the call to it raises, or its answer cannot be decoded as JSON, the
  classification has \<open>query_type\<close> \<open>electrolyte_design\<close> and \<open>should_delegate\<close> true.
\<close>

theorem classifier_defaults_to_design:
  assumes "\<not> is_greeting (strip (lower query))" and "\<not> is_help (strip (lower query))"
    and "llm = None
       \<or> (\<exists>svc e. llm = Some svc \<and> generate svc (classify_prompt query) = Inl e)
       \<or> (\<exists>svc response. llm = Some svc
            \<and> generate svc (classify_prompt query) = Inr response
            \<and> (\<forall>text. fenced_text response = Inr text \<longrightarrow> json_loads text = None))"
  shows "classification_entry ''query_type'' (classify_query llm json_loads query)
           = PStr ''electrolyte_design''
     \<and> classification_entry ''should_delegate'' (classify_query llm json_loads query)
           = PBool True"
proof -
  consider (none) "llm = None"
    | (raises) svc e where "llm = Some svc" "generate svc (classify_prompt query) = Inl e"
    | (undecodable) svc response where "llm = Some svc"
        "generate svc (classify_prompt query) = Inr response"
        "\<forall>text. fenced_text response = Inr text \<longrightarrow> json_loads text = None"
    using assms(3) by blast
  then show ?thesis
  proof cases
    case none
    with assms(1,2) show ?thesis
      by (simp add: classify_query_def default_classification_def classification_entry_def
          dict_get_def)
  next
    case raises
    with assms(1,2) show ?thesis
      by (simp add: classify_query_def llm_classify_query_def ebind_def
          default_classification_def classification_entry_def dict_get_def)
  next
    case undecodable
    show ?thesis
    proof (cases "fenced_text response")
      case (Inl e)
      with undecodable assms(1,2) show ?thesis
        by (simp add: classify_query_def llm_classify_query_def ebind_def
            default_classification_def classification_entry_def dict_get_def)
    next
      case (Inr t)
      with undecodable(3) have "json_loads t = None" by blast
      with Inr undecodable(1,2) assms(1,2) show ?thesis
        by (simp add: classify_query_def llm_classify_query_def ebind_def
            classification_entry_def dict_get_def)
    qed
  qed
qed

lemma design_query_plain:
  "\<not> is_greeting (strip (lower ''Design an electrolyte''))"
  "\<not> is_help (strip (lower ''Design an electrolyte''))"
  by code_simp+

theorem classifier_defaults_to_design_witness:
  "classification_entry ''query_type''
      (classify_query (Some silent_llm) no_parse ''Design an electrolyte'')
     = PStr ''electrolyte_design''
   \<and> classification_entry ''should_delegate''
      (classify_query (Some silent_llm) no_parse ''Design an electrolyte'')
     = PBool True"
proof -
  have "generate silent_llm (classify_prompt ''Design an electrolyte'')
      = Inr ''I cannot classify this.''"
    by (simp add: silent_llm_def)
  moreover have "\<forall>text. fenced_text ''I cannot classify this.'' = Inr text
      \<longrightarrow> no_parse text = None"
    by (simp add: no_parse_def)
  ultimately have "Some silent_llm = None
       \<or> (\<exists>svc e. Some silent_llm = Some svc
            \<and> generate svc (classify_prompt ''Design an electrolyte'') = Inl e)
       \<or> (\<exists>svc response. Some silent_llm = Some svc
            \<and> generate svc (classify_prompt ''Design an electrolyte'') = Inr response
            \<and> (\<forall>text. fenced_text response = Inr text \<longrightarrow> no_parse text = None))"
    by blast
  from classifier_defaults_to_design [OF design_query_plain this] show ?thesis .
qed

section \<open>Coordinator: the shape of every response\<close>

lemma sbind_Inr:
  "sbind m f calls = (Inr y, calls'') \<longleftrightarrow>
     (\<exists>x calls'. m calls = (Inr x, calls') \<and> f x calls' = (Inr y, calls''))"
  unfolding sbind_def by (auto split: prod.splits sum.splits)

lemma lift_Inr: "lift v calls = (Inr x, calls') \<longleftrightarrow> v = Inr x \<and> calls' = calls"
  unfolding lift_def by auto

lemma ret_Inr: "ret x calls = (Inr y, calls') \<longleftrightarrow> y = x \<and> calls' = calls"
  unfolding ret_def by auto

lemma invoke_Inr:
  "invoke a p i calls = (Inr x, calls') \<longleftrightarrow> p i = Inr x \<and> calls' = calls @ [(a, i)]"
  unfolding invoke_def by auto

lemma direct_response_keys:
  "list_all (has_key (direct_response C q m t s)) response_keys
     \<and> dict_get (direct_response C q m t s) ''experiment_plans'' PNone = PList []"
  by (simp add: direct_response_def response_keys_def has_key_def dict_get_def)

lemma handle_simple_query_keys:
  assumes "handle_simple_query C q t = Inr (Some r)"
  shows "list_all (has_key r) response_keys \<and> dict_get r ''experiment_plans'' PNone = PList []"
  using assms direct_response_keys
  unfolding handle_simple_query_def
  by (auto simp: ebind_Inr split: if_splits)

lemma handle_literature_query_keys:
  assumes "handle_literature_query C q calls = (Inr r, calls')"
  shows "list_all (has_key r) response_keys \<and> dict_get r ''experiment_plans'' PNone = PList []"
  using assms unfolding handle_literature_query_def Let_def
  by (auto simp: sbind_Inr ret_Inr response_keys_def has_key_def dict_get_def)

lemma handle_property_query_keys:
  assumes "handle_property_query C um q calls = (Inr r, calls')"
  shows "list_all (has_key r) response_keys \<and> dict_get r ''experiment_plans'' PNone = PList []"
  using assms unfolding handle_property_query_def Let_def
  by (auto simp: sbind_Inr ret_Inr response_keys_def has_key_def dict_get_def)

lemma handle_design_query_keys:
  assumes "handle_design_query C um q calls = (Inr r, calls')"
  shows "list_all (has_key r) response_keys"
  using assms unfolding handle_design_query_def Let_def
  by (auto simp: sbind_Inr ret_Inr response_keys_def has_key_def)


lemma delegate_keys:
  assumes "delegate C um q t calls = (Inr r, calls')"
  shows "list_all (has_key r) response_keys
     \<and> (dict_get r ''experiment_plans'' PNone = PList []
        \<or> delegate C um q t calls = handle_design_query C um q calls)"
  using assms handle_literature_query_keys handle_property_query_keys handle_design_query_keys
  unfolding delegate_def by (auto split: if_splits)

text \<open>
  Claim C10. Every response of \<open>process\<close> has the entries \<open>query\<close>,
  \<open>agent_responses\<close>, \<open>experiment_plans\<close>, \<open>summary\<close>, \<open>processing_time\<close> and
  \<open>requirements_parsed\<close>; its \<open>experiment_plans\<close> is the empty list unless the response
  is the one of the design workflow.
\<close>

theorem response_has_all_keys:
  assumes "process C input_data calls = (Inr r, calls')"
  shows "list_all (has_key r) response_keys
     \<and> (dict_get r ''experiment_plans'' PNone = PList []
        \<or> (\<exists>um q. process C input_data calls = handle_design_query C um q calls))"
proof -
  define um where "um = dict_get input_data ''user_materials_input'' (PStr [])"
  from assms obtain q t c where
    q: "as_str (dict_get input_data ''query'' (PStr [])) = Inr q" and
    t: "py_index (classify_query (backend C) (json_decoder C) q) ''query_type'' = Inr t" and
    f: "\<exists>x. ebind (py_index (classify_query (backend C) (json_decoder C) q) ''confidence'')
            (py_format format_2f) = Inr x" and
    c: "as_dict (classify_query (backend C) (json_decoder C) q) = Inr c" and
    run: "(if \<not> truthy (dict_get c ''should_delegate'' (PBool True)) then
        sbind (lift (handle_simple_query C q t)) (\<lambda>simple_response.
        case simple_response of
          Some response \<Rightarrow> ret response
        | None \<Rightarrow> delegate C um q t)
      else delegate C um q t) calls = (Inr r, calls')"
    unfolding process_def Let_def um_def by (auto simp: sbind_Inr lift_Inr)
  from q t f c have same: "process C input_data calls =
      (if \<not> truthy (dict_get c ''should_delegate'' (PBool True)) then
        sbind (lift (handle_simple_query C q t)) (\<lambda>simple_response.
        case simple_response of
          Some response \<Rightarrow> ret response
        | None \<Rightarrow> delegate C um q t)
      else delegate C um q t) calls"
    unfolding process_def Let_def um_def by (auto simp: sbind_def lift_def)
  show ?thesis
  proof (cases "truthy (dict_get c ''should_delegate'' (PBool True))")
    case True
    with run have d: "delegate C um q t calls = (Inr r, calls')" by simp
    from True same have "process C input_data calls = delegate C um q t calls" by simp
    with delegate_keys [OF d] show ?thesis by auto
  next
    case False
    with run obtain simple where
      s: "handle_simple_query C q t = Inr simple" and
      rest: "(case simple of Some response \<Rightarrow> ret response
              | None \<Rightarrow> delegate C um q t) calls = (Inr r, calls')"
      by (auto simp: sbind_Inr lift_Inr)
    show ?thesis
    proof (cases simple)
      case (Some response)
      with rest have "r = response" by (simp add: ret_Inr)
      with s Some handle_simple_query_keys show ?thesis by blast
    next
      case None
      with rest have d: "delegate C um q t calls = (Inr r, calls')" by simp
      from False same s None have "process C input_data calls = delegate C um q t calls"
        by (simp add: sbind_def lift_def)
      with delegate_keys [OF d] show ?thesis by auto
    qed
  qed
qed

section \<open>Coordinator: the design workflow\<close>

lemma predict_plans_spec:
  assumes "predict_plans C req q i plans calls = (Inr out, calls')"
  shows "\<exists>inputs results.
      calls' = calls @ map (Pair Predictor) inputs
    \<and> length inputs = length plans \<and> length results = length plans
    \<and> length (fst out) = length plans \<and> length (snd out) = length plans
    \<and> (\<forall>j < length plans.
         prediction_agent C (i + j) (inputs ! j) = Inr (results ! j)
       \<and> (\<exists>p f. plans ! j = PDict p
            \<and> convert_formulation_to_dict (printer C) (dict_get p ''formulation'' (PList []))
                = Inr f
            \<and> inputs ! j = prediction_input req q f
            \<and> fst out ! j = attach_prediction p (results ! j)
            \<and> snd out ! j =
                prediction_entry (i + j) (attach_prediction p (results ! j)) (results ! j)))"
  using assms
proof (induction plans arbitrary: i calls out calls')
  case Nil
  then show ?case by (simp add: ret_Inr)
next
  case (Cons plan rest)
  from Cons.prems obtain p f res later where
    p: "as_dict plan = Inr p" and
    f: "convert_formulation_to_dict (printer C) (dict_get p ''formulation'' (PList [])) = Inr f"
    and res: "prediction_agent C i (prediction_input req q f) = Inr res" and
    later: "predict_plans C req q (Suc i) rest
              (calls @ [(Predictor, prediction_input req q f)]) = (Inr later, calls')" and
    out: "out = (attach_prediction p res # fst later,
                 prediction_entry i (attach_prediction p res) res # snd later)"
    by (auto simp: sbind_Inr lift_Inr invoke_Inr ret_Inr)
  from Cons.IH [OF later] obtain inputs results where
    ih: "calls' = (calls @ [(Predictor, prediction_input req q f)]) @ map (Pair Predictor) inputs"
      "length inputs = length rest" "length results = length rest"
      "length (fst later) = length rest" "length (snd later) = length rest"
      "\<forall>j < length rest.
         prediction_agent C (Suc i + j) (inputs ! j) = Inr (results ! j)
       \<and> (\<exists>p f. rest ! j = PDict p
            \<and> convert_formulation_to_dict (printer C) (dict_get p ''formulation'' (PList []))
                = Inr f
            \<and> inputs ! j = prediction_input req q f
            \<and> fst later ! j = attach_prediction p (results ! j)
            \<and> snd later ! j =
                prediction_entry (Suc i + j) (attach_prediction p (results ! j)) (results ! j))"
    by blast
  from p have plan: "plan = PDict p" by (cases plan) auto
  define inputs' where "inputs' = prediction_input req q f # inputs"
  define results' where "results' = res # results"
  have step: "prediction_agent C (i + j) (inputs' ! j) = Inr (results' ! j)
       \<and> (\<exists>p f. (plan # rest) ! j = PDict p
            \<and> convert_formulation_to_dict (printer C) (dict_get p ''formulation'' (PList []))
                = Inr f
            \<and> inputs' ! j = prediction_input req q f
            \<and> fst out ! j = attach_prediction p (results' ! j)
            \<and> snd out ! j =
                prediction_entry (i + j) (attach_prediction p (results' ! j)) (results' ! j))"
    if "j < length (plan # rest)" for j
  proof (cases j)
    case 0
    with plan f res out show ?thesis by (auto simp: inputs'_def results'_def)
  next
    case (Suc k)
    with that have "k < length rest" by simp
    with ih(6) Suc out show ?thesis by (auto simp: inputs'_def results'_def)
  qed
  have "calls' = calls @ map (Pair Predictor) inputs'
    \<and> length inputs' = length (plan # rest) \<and> length results' = length (plan # rest)
    \<and> length (fst out) = length (plan # rest) \<and> length (snd out) = length (plan # rest)"
    using ih(1-5) out by (simp add: inputs'_def results'_def)
  with step show ?case by blast
qed


lemma dict_get_dict_set:
  "dict_get (dict_set d k v) k' dflt = (if k' = k then v else dict_get d k' dflt)"
  by (simp add: dict_get_def dict_set_def update_conv')

lemma attach_prediction_entries:
  "dict_get (attach_prediction p res) ''predicted_performance'' x
     = dict_get res ''predictions'' (PDict [])"
  "dict_get (attach_prediction p res) ''prediction_confidence'' x
     = dict_get res ''confidence_score'' (PNum 0)"
  by (simp_all add: attach_prediction_def dict_get_dict_set)

lemma rationale_step_length [simp]: "length (rationale_step C req i ps) = length ps"
  by (induction ps arbitrary: i) auto

lemma rationale_step_keeps:
  assumes "j < length ps" and "k \<noteq> ''llm_rationale''"
  shows "dict_get (rationale_step C req i ps ! j) k dflt = dict_get (ps ! j) k dflt"
  using assms
proof (induction ps arbitrary: i j)
  case Nil
  then show ?case by simp
next
  case (Cons p ps)
  show ?case
  proof (cases j)
    case 0
    with Cons.prems(2) show ?thesis
      by (auto simp: dict_get_dict_set split: option.splits sum.splits)
  next
    case (Suc n)
    with Cons show ?thesis by simp
  qed
qed

lemma emap_nth:
  assumes "emap f xs = Inr ys"
  shows "length ys = length xs \<and> (\<forall>j < length xs. f (xs ! j) = Inr (ys ! j))"
  using assms
proof (induction xs arbitrary: ys)
  case Nil
  then show ?case by simp
next
  case (Cons x xs)
  from Cons.prems obtain y ys' where y: "f x = Inr y" and ys': "emap f xs = Inr ys'"
    and ys: "ys = y # ys'"
    by (auto simp: ebind_Inr)
  from Cons.IH [OF ys'] y ys show ?case
    by (auto simp: nth_Cons split: nat.splits)
qed

lemma same_container_plans:
  assumes "py_iter v = Inr plans" and "length ps = length plans"
    and "\<forall>j < length plans. \<exists>p. plans ! j = PDict p"
  shows "(case same_container v ps of PList xs \<Rightarrow> xs | PTuple xs \<Rightarrow> xs | _ \<Rightarrow> [])
     = map PDict ps"
proof (cases v)
  case (PStr s)
  with assms(1) have plans: "plans = map (\<lambda>c. PStr [c]) s" by simp
  have "s = []"
  proof (rule ccontr)
    assume "s \<noteq> []"
    with plans assms(3) have "\<exists>p. plans ! 0 = PDict p" by auto
    with plans \<open>s \<noteq> []\<close> show False by (cases s) auto
  qed
  with plans assms(2) PStr show ?thesis by (simp add: same_container_def)
next
  case (PDict d)
  with assms(1) have plans: "plans = map (\<lambda>kv. PStr (fst kv)) d" by simp
  have "d = []"
  proof (rule ccontr)
    assume "d \<noteq> []"
    with plans assms(3) have "\<exists>p. plans ! 0 = PDict p" by auto
    with plans \<open>d \<noteq> []\<close> show False by (cases d) auto
  qed
  with plans assms(2) PDict show ?thesis by (simp add: same_container_def)
qed (use assms(1) in \<open>simp_all add: same_container_def\<close>)


lemma handle_design_query_run:
  assumes "handle_design_query C um q calls = (Inr r, calls')"
  shows "\<exists>requirements prop_in plan_in planning_result plans predicted calls3 avg.
      calls3 = calls @ [(Literature, [(''query'', PStr q)]), (Property, prop_in),
                        (Planner, plan_in)]
    \<and> planning_agent C plan_in = Inr planning_result
    \<and> py_iter (dict_get planning_result ''experiment_plans'' (PList [])) = Inr plans
    \<and> predict_plans C requirements q 0 plans calls3 = (Inr predicted, calls')
    \<and> average_confidence (snd predicted) = Inr avg
    \<and> response_plans r =
        (case same_container (dict_get planning_result ''experiment_plans'' (PList []))
                (rationale_step C requirements 0 (fst predicted)) of
           PList xs \<Rightarrow> xs | PTuple xs \<Rightarrow> xs | _ \<Rightarrow> [])
    \<and> reported_average r = PNum (py_round avg 2)"
proof -
  from assms obtain requirements prop_in plan_in planning_result plans predicted avg
      e1 e2 e3 e4 e5 e6 where
    "planning_agent C plan_in = Inr planning_result"
    "py_iter (dict_get planning_result ''experiment_plans'' (PList [])) = Inr plans"
    "predict_plans C requirements q 0 plans
       (calls @ [(Literature, [(''query'', PStr q)]), (Property, prop_in), (Planner, plan_in)])
       = (Inr predicted, calls')"
    "average_confidence (snd predicted) = Inr avg"
    "r = [(''query'', PStr q),
          (''agent_responses'', PList
             [e1, e2, e3,
              PDict [(''agent_type'', PStr ''performance_prediction''),
                     (''status'', PStr ''success''),
                     (''message'', e4),
                     (''data'', PDict
                        [(''predictions_per_plan'', PList (snd predicted)),
                         (''average_confidence'', PNum (py_round avg 2)),
                         (''total_plans_evaluated'', e5)])]]),
          (''experiment_plans'',
             same_container (dict_get planning_result ''experiment_plans'' (PList []))
               (rationale_step C requirements 0 (fst predicted))),
          (''summary'', e6),
          (''processing_time'', PNum (py_round (elapsed C) 2)),
          (''requirements_parsed'', PDict requirements)]"
    unfolding handle_design_query_def Let_def
    by (auto simp: sbind_Inr lift_Inr invoke_Inr ret_Inr)
  then show ?thesis
    by (intro exI [of _ requirements] exI [of _ prop_in] exI [of _ plan_in]
          exI [of _ planning_result] exI [of _ plans] exI [of _ predicted] exI [of _ avg]
          exI [of _ "calls @ [(Literature, [(''query'', PStr q)]), (Property, prop_in),
                        (Planner, plan_in)]"])
       (simp add: response_plans_def reported_average_def dict_get_def)
qed


text \<open>
  Claim C2 as amended. In every design run that returns, the agents are called in the
  order literature, property, planner, and then the predictor once for each plan of the
  planner's answer, in the order of the plans, with the converted formulation of that
  plan. Each plan of the response carries under \<open>predicted_performance\<close> and
  \<open>prediction_confidence\<close> the predictions and the confidence score of its own call.
  The reported \<open>average_confidence\<close> is the arithmetic mean of the confidences of the
  plans rounded to two places, and 0 when there is no plan.
\<close>

theorem design_stages_in_order:
  assumes "handle_design_query C um q calls = (Inr r, calls')"
  shows "\<exists>prop_in plan_in planning_result plans inputs results.
      calls' = calls @ [(Literature, [(''query'', PStr q)]), (Property, prop_in),
                        (Planner, plan_in)] @ map (Pair Predictor) inputs
    \<and> planning_agent C plan_in = Inr planning_result
    \<and> py_iter (dict_get planning_result ''experiment_plans'' (PList [])) = Inr plans
    \<and> length inputs = length plans \<and> length results = length plans
    \<and> length (response_plans r) = length plans
    \<and> (\<forall>j < length plans.
          prediction_agent C j (inputs ! j) = Inr (results ! j)
        \<and> (\<exists>p f. plans ! j = PDict p
             \<and> convert_formulation_to_dict (printer C) (dict_get p ''formulation'' (PList []))
                 = Inr f
             \<and> dict_get (inputs ! j) ''formulation'' PNone = PDict f)
        \<and> plan_entry ''predicted_performance'' (response_plans r ! j)
            = dict_get (results ! j) ''predictions'' (PDict [])
        \<and> plan_entry ''prediction_confidence'' (response_plans r ! j)
            = dict_get (results ! j) ''confidence_score'' (PNum 0))
    \<and> reported_average r =
        PNum (py_round (if plans = [] then 0
                        else mean (map plan_confidence (response_plans r))) 2)"
proof -
  from handle_design_query_run [OF assms]
  obtain requirements prop_in plan_in planning_result plans predicted calls3 avg where
    calls3: "calls3 = calls @ [(Literature, [(''query'', PStr q)]), (Property, prop_in),
                        (Planner, plan_in)]" and
    planner: "planning_agent C plan_in = Inr planning_result" and
    plans: "py_iter (dict_get planning_result ''experiment_plans'' (PList [])) = Inr plans" and
    loop: "predict_plans C requirements q 0 plans calls3 = (Inr predicted, calls')" and
    avg: "average_confidence (snd predicted) = Inr avg" and
    finals: "response_plans r =
        (case same_container (dict_get planning_result ''experiment_plans'' (PList []))
                (rationale_step C requirements 0 (fst predicted)) of
           PList xs \<Rightarrow> xs | PTuple xs \<Rightarrow> xs | _ \<Rightarrow> [])" and
    rep: "reported_average r = PNum (py_round avg 2)"
    by blast
  from predict_plans_spec [OF loop] obtain inputs results where
    trace: "calls' = calls3 @ map (Pair Predictor) inputs" and
    len: "length inputs = length plans" "length results = length plans"
      "length (fst predicted) = length plans" "length (snd predicted) = length plans" and
    each: "\<forall>j < length plans.
         prediction_agent C (0 + j) (inputs ! j) = Inr (results ! j)
       \<and> (\<exists>p f. plans ! j = PDict p
            \<and> convert_formulation_to_dict (printer C) (dict_get p ''formulation'' (PList []))
                = Inr f
            \<and> inputs ! j = prediction_input requirements q f
            \<and> fst predicted ! j = attach_prediction p (results ! j)
            \<and> snd predicted ! j =
                prediction_entry (0 + j) (attach_prediction p (results ! j)) (results ! j))"
    by blast
  define final where "final = rationale_step C requirements 0 (fst predicted)"
  have "\<forall>j < length plans. \<exists>p. plans ! j = PDict p" using each by blast
  with plans len(3) have resp: "response_plans r = map PDict final"
    unfolding finals final_def by (intro same_container_plans) simp_all
  have final_entry: "plan_entry k (response_plans r ! j) = dict_get (fst predicted ! j) k PNone"
    if "j < length plans" "k \<noteq> ''llm_rationale''" for j k
    using that len(3) rationale_step_keeps [of j "fst predicted" k C requirements 0 PNone]
    by (simp add: resp final_def plan_entry_def)
  have per_plan: "prediction_agent C j (inputs ! j) = Inr (results ! j)
        \<and> (\<exists>p f. plans ! j = PDict p
             \<and> convert_formulation_to_dict (printer C) (dict_get p ''formulation'' (PList []))
                 = Inr f
             \<and> dict_get (inputs ! j) ''formulation'' PNone = PDict f)
        \<and> plan_entry ''predicted_performance'' (response_plans r ! j)
            = dict_get (results ! j) ''predictions'' (PDict [])
        \<and> plan_entry ''prediction_confidence'' (response_plans r ! j)
            = dict_get (results ! j) ''confidence_score'' (PNum 0)"
    if j: "j < length plans" for j
  proof -
    from each j obtain p f where
      a: "prediction_agent C j (inputs ! j) = Inr (results ! j)" and
      b: "plans ! j = PDict p"
         "convert_formulation_to_dict (printer C) (dict_get p ''formulation'' (PList [])) = Inr f"
         "inputs ! j = prediction_input requirements q f" and
      c: "fst predicted ! j = attach_prediction p (results ! j)"
      by auto
    from b(3) have "dict_get (inputs ! j) ''formulation'' PNone = PDict f"
      by (simp add: prediction_input_def dict_get_def)
    with a b c final_entry [OF j] show ?thesis
      by (auto simp: attach_prediction_entries)
  qed
  have average: "avg = (if plans = [] then 0 else mean (map plan_confidence (response_plans r)))"
  proof (cases "plans = []")
    case True
    with len(4) avg show ?thesis by (simp add: average_confidence_def)
  next
    case False
    with len(4) have ne: "snd predicted \<noteq> []" by auto
    with avg obtain scores where
      scores: "emap entry_confidence (snd predicted) = Inr scores" and
      avg_eq: "avg = sum_list scores / of_nat (length (snd predicted))"
      by (auto simp: average_confidence_def ebind_Inr)
    from emap_nth [OF scores] have sl: "length scores = length (snd predicted)" and
      sn: "\<forall>j < length (snd predicted). entry_confidence (snd predicted ! j) = Inr (scores ! j)"
      by blast+
    have "scores = map plan_confidence (response_plans r)"
    proof (rule nth_equalityI)
      show "length scores = length (map plan_confidence (response_plans r))"
        using sl len(3,4) by (simp add: resp final_def)
    next
      fix j assume "j < length scores"
      with sl len(4) have j: "j < length plans" by simp
      from each j obtain p where
        e: "snd predicted ! j =
              prediction_entry (0 + j) (attach_prediction p (results ! j)) (results ! j)"
        by auto
      from sn j len(4) have "entry_confidence (snd predicted ! j) = Inr (scores ! j)" by simp
      with e have n: "as_num (dict_get (results ! j) ''confidence_score'' (PNum 0))
          = Inr (scores ! j)"
        by (simp add: entry_confidence_def prediction_entry_def ebind_def dict_get_def)
      from per_plan [OF j] have "plan_entry ''prediction_confidence'' (response_plans r ! j)
            = dict_get (results ! j) ''confidence_score'' (PNum 0)" by simp
      with n have "plan_confidence (response_plans r ! j) = scores ! j"
        by (simp add: plan_confidence_def)
      with j len(3) show "scores ! j = map plan_confidence (response_plans r) ! j"
        by (simp add: resp final_def)
    qed
    with avg_eq sl False show ?thesis by (simp add: mean_def)
  qed
  have "length (response_plans r) = length plans"
    using len(3) by (simp add: resp final_def)
  with trace calls3 planner plans len(1,2) per_plan rep average show ?thesis
    by (intro exI [of _ prop_in] exI [of _ plan_in] exI [of _ planning_result]
          exI [of _ plans] exI [of _ inputs] exI [of _ results]) simp
qed

end
